theory Spec2Isabelle
  imports Main "HOL-Library.Word" "HOL-Library.Code_Target_Nat"
begin

unbundle bit_operations_syntax

section \<open>Go primitives used by the handshake log (package ztls)\<close>

text \<open>
  Byte slices are lists of 8-bit words, strings are lists of characters. A Go slice
  expression or an index out of range panics, and so does a call through a nil pointer;
  the model makes that an explicit result, so that "does not panic" is a statement about
  the function and not an assumption of the model. The capacity of a slice is taken to
  be its length, which only adds panics to the model.
\<close>

type_synonym byte = "8 word"
type_synonym uint16 = "16 word"
type_synonym uint32 = "32 word"

datatype panic = IndexOutOfRange | SliceBoundsOutOfRange | NilDereference

text \<open>Sequencing of a step that may panic: the first panic ends the run.\<close>

definition and_then :: "panic + 'a \<Rightarrow> ('a \<Rightarrow> panic + 'b) \<Rightarrow> panic + 'b" where
  "and_then m f = (case m of Inl e \<Rightarrow> Inl e | Inr x \<Rightarrow> f x)"

text \<open>\<open>buf[n:]\<close>\<close>

definition slice_from :: "'a list \<Rightarrow> nat \<Rightarrow> panic + 'a list" where
  "slice_from buf n = (if n \<le> length buf then Inr (drop n buf) else Inl SliceBoundsOutOfRange)"

text \<open>\<open>buf[0:n]\<close>\<close>

definition slice_to :: "'a list \<Rightarrow> nat \<Rightarrow> panic + 'a list" where
  "slice_to buf n = (if n \<le> length buf then Inr (take n buf) else Inl SliceBoundsOutOfRange)"

text \<open>
  \<open>binary.BigEndian.Uint16(b)\<close>: \<open>_ = b[1]; return uint16(b[1]) | uint16(b[0])<<8\<close>.
\<close>

definition BigEndian_Uint16 :: "byte list \<Rightarrow> panic + uint16" where
  "BigEndian_Uint16 b =
     (if length b < 2 then Inl IndexOutOfRange
      else Inr ((ucast (b ! 1) :: uint16) OR push_bit 8 (ucast (b ! 0) :: uint16)))"

text \<open>
  \<open>big.Int\<close> values that the decoders build are non-negative, so a \<open>*big.Int\<close> is a
  \<open>nat option\<close> (\<open>None\<close> is the nil pointer). \<open>SetBytes\<close> reads a byte slice as a
  big-endian unsigned integer, most significant byte first.
\<close>

definition SetBytes :: "byte list \<Rightarrow> nat" where
  "SetBytes bs = foldl (\<lambda>acc b. acc * 256 + unat b) 0 bs"

section \<open>Diffie-Hellman parameters\<close>

record DHParams =
  P :: "nat option"
  G :: "nat option"
  Ys :: "nat option"

text \<open>\<open>new(DHParams)\<close>: all three pointers nil.\<close>

definition new_DHParams :: DHParams where
  "new_DHParams = \<lparr>P = None, G = None, Ys = None\<rparr>"

text \<open>
  \<open>func (p *DHParams) unmarshal(buf []byte) bool\<close>. The receiver is mutated in place, so
  the model returns the flag together with the receiver as the call leaves it: a field
  decoded before a later failure stays set.
\<close>

definition DHParams_unmarshal :: "DHParams \<Rightarrow> byte list \<Rightarrow> panic + (bool \<times> DHParams)" where
  "DHParams_unmarshal p buf =
    (if length buf < 2 then Inr (False, p) else
     and_then (BigEndian_Uint16 buf) (\<lambda>pLength.
     and_then (slice_from buf 2) (\<lambda>buf.
     if length buf < unat pLength then Inr (False, p) else
     and_then (slice_to buf (unat pLength)) (\<lambda>pBytes.
     and_then (slice_from buf (unat pLength)) (\<lambda>buf.
     let p = p\<lparr>P := Some (SetBytes pBytes)\<rparr> in
     if length buf < 2 then Inr (False, p) else
     and_then (BigEndian_Uint16 buf) (\<lambda>gLength.
     and_then (slice_from buf 2) (\<lambda>buf.
     if length buf < unat gLength then Inr (False, p) else
     and_then (slice_to buf (unat gLength)) (\<lambda>gBytes.
     and_then (slice_from buf (unat gLength)) (\<lambda>buf.
     let p = p\<lparr>G := Some (SetBytes gBytes)\<rparr> in
     if length buf < 2 then Inr (False, p) else
     and_then (BigEndian_Uint16 buf) (\<lambda>ysLength.
     and_then (slice_from buf 2) (\<lambda>buf.
     if length buf < unat ysLength then Inr (False, p) else
     and_then (slice_to buf (unat ysLength)) (\<lambda>ysBytes.
     let p = p\<lparr>Ys := Some (SetBytes ysBytes)\<rparr> in
     Inr (True, p)))))))))))))"

subsection \<open>The wire format the decoder is specified against\<close>

text \<open>
  A length-prefixed field: the length as two bytes, high byte first, then the bytes.
\<close>

definition field :: "byte list \<Rightarrow> byte list" where
  "field bs = [of_nat (length bs div 256), of_nat (length bs mod 256)] @ bs"

text \<open>The unsigned big-endian magnitude of a byte string, as a positional sum.\<close>

definition magnitude :: "byte list \<Rightarrow> nat" where
  "magnitude bs = (\<Sum>i<length bs. unat (bs ! i) * 256 ^ (length bs - 1 - i))"

text \<open>
  A buffer is truncated for \<open>k\<close> expected fields when, at some field, fewer than two bytes
  remain for the length prefix or the declared length exceeds the bytes that remain.
\<close>

fun truncated :: "nat \<Rightarrow> byte list \<Rightarrow> bool" where
  "truncated 0 buf = False"
| "truncated (Suc k) buf =
     (if length buf < 2 then True
      else let n = unat (buf ! 0) * 256 + unat (buf ! 1); rest = drop 2 buf
           in if length rest < n then True else truncated k (drop n rest))"

text \<open>One field taken off the front of a buffer: its bytes and what follows them.\<close>

definition take_field :: "byte list \<Rightarrow> (byte list \<times> byte list) option" where
  "take_field buf =
     (if length buf < 2 then None
      else let n = unat (buf ! 0) * 256 + unat (buf ! 1); rest = drop 2 buf
           in if length rest < n then None else Some (take n rest, drop n rest))"

section \<open>Export signature algorithm\<close>

text \<open>\<open>type ExportSignatureAlgorithm uint16\<close> and its two name tables.\<close>

definition exportHashes :: "string list" where
  "exportHashes = [''MD5'', ''SHA-1'', ''SHA-224'', ''SHA-256'', ''SHA-384'', ''SHA-512'']"

definition exportAlgorithms :: "string list" where
  "exportAlgorithms = [''anon'', ''RSA'', ''DSA'', ''ECDSA'']"

text \<open>\<open>xs[i]\<close> on a slice of strings, with Go's bounds check.\<close>

definition index_string :: "string list \<Rightarrow> int \<Rightarrow> panic + string" where
  "index_string xs i =
     (if 0 \<le> i \<and> i < int (length xs) then Inr (xs ! nat i) else Inl IndexOutOfRange)"

text \<open>The anonymous struct that \<open>MarshalJSON\<close> fills and hands to \<open>json.Marshal\<close>.\<close>

record esa_aux =
  Value :: uint16
  HashName :: string
  HashID :: int
  AlgName :: string
  AlgID :: int

definition zero_esa_aux :: esa_aux where
  "zero_esa_aux = \<lparr>Value = 0, HashName = [], HashID = 0, AlgName = [], AlgID = 0\<rparr>"

text \<open>
  The JSON document, as a value: an object is the list of its members in the order
  \<open>json.Marshal\<close> writes them, which is the order of the struct's fields.
\<close>

datatype json = JNumber int | JString string | JObject "(string \<times> json) list"

text \<open>
  \<open>json.Marshal(&aux)\<close> by the struct tags: every field under its tag's name, the two
  names with \<open>omitempty\<close>, so left out when the string is empty. Marshalling integers
  and strings has no error case.
\<close>

definition json_Marshal_aux :: "esa_aux \<Rightarrow> json" where
  "json_Marshal_aux a = JObject
     ([(''value'', JNumber (uint (Value a)))]
      @ (if HashName a = [] then [] else [(''hash_name'', JString (HashName a))])
      @ [(''hash_id'', JNumber (HashID a))]
      @ (if AlgName a = [] then [] else [(''algorithm_name'', JString (AlgName a))])
      @ [(''algorithm_id'', JNumber (AlgID a))])"

text \<open>
  \<open>func (esa *ExportSignatureAlgorithm) MarshalJSON() ([]byte, error)\<close>. The second
  component is the returned error, \<open>None\<close> for nil (an error here would be
  \<open>json.Marshal\<close>'s; it has none for this struct).
\<close>

definition ExportSignatureAlgorithm_MarshalJSON :: "uint16 \<Rightarrow> panic + (json \<times> string option)" where
  "ExportSignatureAlgorithm_MarshalJSON esa =
    (let val = esa;
         hash = uint (ucast (drop_bit 8 val) :: byte);
         alg = uint (ucast val :: byte);
         aux = zero_esa_aux
     in and_then (if hash < int (length exportHashes)
                  then and_then (index_string exportHashes hash) (\<lambda>s. Inr (aux\<lparr>HashName := s\<rparr>))
                  else Inr aux) (\<lambda>aux.
        and_then (if alg < int (length exportAlgorithms)
                  then and_then (index_string exportAlgorithms alg) (\<lambda>s. Inr (aux\<lparr>AlgName := s\<rparr>))
                  else Inr aux) (\<lambda>aux.
        let aux = aux\<lparr>Value := val\<rparr>;
            aux = aux\<lparr>HashID := hash\<rparr>;
            aux = aux\<lparr>AlgID := alg\<rparr>
        in Inr (json_Marshal_aux aux, None))))"

text \<open>Reading a member of a JSON object back.\<close>

definition json_member :: "json \<Rightarrow> string \<Rightarrow> json option" where
  "json_member j k = (case j of JObject ms \<Rightarrow> map_of ms k | _ \<Rightarrow> None)"

section \<open>The server handshake log\<close>

text \<open>
  \<open>big.Int.Bytes\<close> (the big-endian magnitude with no leading zero byte) and
  \<open>big.Int.BitLen\<close>.
\<close>

function Bytes :: "nat \<Rightarrow> byte list" where
  "Bytes n = (if n = 0 then [] else Bytes (n div 256) @ [of_nat (n mod 256)])"
  by pat_completeness auto
termination
  by (relation "measure id") auto

function BitLen :: "nat \<Rightarrow> nat" where
  "BitLen n = (if n = 0 then 0 else Suc (BitLen (n div 2)))"
  by pat_completeness auto
termination
  by (relation "measure id") auto

record ServerKeyExchange =
  Key :: "byte list"

record Finished =
  VerifyData :: "byte list"

record ServerHello =
  Version :: uint16
  Random :: "byte list"
  SessionID :: "byte list"
  CipherSuite :: uint16
  CompressionMethod :: byte
  OcspStapling :: bool
  TicketSupported :: bool
  SecureRenegotiation :: bool
  HeartbeatSupported :: bool

text \<open>
  \<open>Certificates\<close>: the raw certificates, and the parsed ones. The type of a parsed
  certificate belongs to package x509; the model keeps of it the bytes it was parsed from.
\<close>

datatype x509_Certificate = X509_Certificate "byte list"

record Certificates =
  Certificates :: "byte list list"
  ParsedCertificates :: "x509_Certificate list"

record rsa_PublicKey =
  N :: nat
  E :: int

record RSAExportParams =
  PublicKey :: rsa_PublicKey
  Modulus :: "byte list"
  Exponent :: uint32
  Length :: int

text \<open>
  The handshake messages of package ztls, as far as this file reads them: the key
  exchange message's \<open>key\<close>, and the two raw fields of the decoded RSA export parameters.
\<close>

record serverKeyExchangeMsg =
  key :: "byte list"

record rsaExportParams =
  rawModulus :: "byte list"
  rawExponent :: "byte list"

record ServerHandshake =
  ServerHello :: "ServerHello option"
  ServerCertificates :: "Certificates option"
  ServerKeyExchange :: "ServerKeyExchange option"
  RSAExportParams :: "RSAExportParams option"
  DHExportParams :: "DHParams option"
  DHParams :: "DHParams option"
  ServerFinished :: "Finished option"

text \<open>\<open>new(ServerHandshake)\<close>\<close>

definition new_ServerHandshake :: ServerHandshake where
  "new_ServerHandshake =
     \<lparr>ServerHello = None, ServerCertificates = None, ServerKeyExchange = None,
      RSAExportParams = None, DHExportParams = None, DHParams = None, ServerFinished = None\<rparr>"

text \<open>\<open>func (m *serverKeyExchangeMsg) MakeLog() *ServerKeyExchange\<close>: a copy of the key.\<close>

definition serverKeyExchangeMsg_MakeLog :: "serverKeyExchangeMsg \<Rightarrow> ServerKeyExchange" where
  "serverKeyExchangeMsg_MakeLog m = \<lparr>Key = key m\<rparr>"

text \<open>
  \<open>func (p *rsaExportParams) MakeLog() *RSAExportParams\<close>. The exponent is folded into a
  \<open>uint32\<close> by shift and or; \<open>int(exponent)\<close> is taken on a 64-bit \<open>int\<close>.
\<close>

definition rsaExportParams_MakeLog :: "rsaExportParams \<Rightarrow> RSAExportParams" where
  "rsaExportParams_MakeLog p =
    (let exponent = foldl (\<lambda>e b. push_bit 8 e OR (ucast b :: uint32)) (0 :: uint32) (rawExponent p);
         modulus = SetBytes (rawModulus p);
         key = \<lparr>N = modulus, E = uint exponent\<rparr>
     in \<lparr>PublicKey = key, Modulus = Bytes modulus, Exponent = exponent,
         Length = int (BitLen modulus)\<rparr>)"

text \<open>
  The cipher suite tables of package ztls that this code names. Their contents are
  declared outside these files, so every function that reads one takes the tables as a
  parameter, a function from the table's name to its list.
\<close>

datatype suite_table =
    RSAExportCiphers | DHEExportCiphers | DHECiphers | RSA512ExportCiphers
  | ChromeCiphers | ChromeNoDHECiphers | FirefoxCiphers | FirefoxNoDHECiphers
  | SafariCiphers | SafariNoDHECiphers

type_synonym tables = "suite_table \<Rightarrow> uint16 list"

text \<open>
  Modelled from the spec: \<open>cipherInList\<close> is declared outside these files; the spec has
  membership of a suite in a named family as a static lookup in the family's list.
\<close>

definition cipherInList :: "uint16 \<Rightarrow> uint16 list \<Rightarrow> bool" where
  "cipherInList cipher list = (cipher \<in> set list)"

text \<open>
  \<open>func (hs *ServerHandshake) setSkx(skx *serverKeyExchangeMsg, cipher uint16)\<close>. The
  method has no result; the model returns the log as the call leaves it. The decoder of
  the RSA export parameters, \<open>rsaExportParams.unmarshal\<close>, is declared outside these
  files: it is the parameter \<open>rsa_unmarshal\<close>, from the key bytes to the flag and the
  decoded value.
\<close>

definition setSkx ::
  "tables \<Rightarrow> (byte list \<Rightarrow> bool \<times> rsaExportParams) \<Rightarrow> ServerHandshake \<Rightarrow>
     serverKeyExchangeMsg \<Rightarrow> uint16 \<Rightarrow> panic + ServerHandshake" where
  "setSkx tbl rsa_unmarshal hs skx cipher =
    (let hs = hs\<lparr>ServerKeyExchange := Some (serverKeyExchangeMsg_MakeLog skx)\<rparr> in
     if cipherInList cipher (tbl RSAExportCiphers) then
       (case rsa_unmarshal (key skx) of (ok, p) \<Rightarrow>
          if ok then Inr (hs\<lparr>RSAExportParams := Some (rsaExportParams_MakeLog p)\<rparr>) else Inr hs)
     else if cipherInList cipher (tbl DHEExportCiphers) then
       and_then (DHParams_unmarshal new_DHParams (key skx)) (\<lambda>(ok, p).
          if ok then Inr (hs\<lparr>DHExportParams := Some p\<rparr>) else Inr hs)
     else if cipherInList cipher (tbl DHECiphers) then
       and_then (DHParams_unmarshal new_DHParams (key skx)) (\<lambda>(ok, p).
          if ok then Inr (hs\<lparr>DHParams := Some p\<rparr>) else Inr hs)
     else Inr hs)"

subsection \<open>The family of a suite, as the handshake recorder is specified\<close>

datatype family = NoFamily | RSAExportFamily | DHEExportFamily | DHEFamily

definition familyOf :: "tables \<Rightarrow> uint16 \<Rightarrow> family" where
  "familyOf tbl cipher =
     (if cipher \<in> set (tbl RSAExportCiphers) then RSAExportFamily
      else if cipher \<in> set (tbl DHEExportCiphers) then DHEExportFamily
      else if cipher \<in> set (tbl DHECiphers) then DHEFamily
      else NoFamily)"

text \<open>How many of the three decoded parameter fields of a log are present.\<close>

definition populated :: "ServerHandshake \<Rightarrow> nat" where
  "populated hs =
     (if RSAExportParams hs = None then 0 else 1)
     + (if DHExportParams hs = None then 0 else 1)
     + (if DHParams hs = None then 0 else 1)"

section \<open>The connection (package zlib)\<close>

subsection \<open>Errors, strings and the standard library\<close>

text \<open>
  A Go \<open>error\<close> value. \<open>Errorf\<close> is an error made in this file by \<open>fmt.Errorf\<close> or
  \<open>errors.New\<close>, with its message. The two sentinels of package ztls are compared by
  identity in this file, so they are constructors of their own. \<open>ErrSyntax\<close> and
  \<open>ErrRange\<close> are the errors of \<open>strconv\<close>; \<open>External\<close> is any other error that a
  collaborator returns (a network error, a TLS alert).
\<close>

datatype error =
    Errorf string
  | ErrUnimplementedCipher
  | HeartbleedError
  | ErrSyntax
  | ErrRange
  | External string

definition SMTP_COMMAND :: string where
  "SMTP_COMMAND = ''STARTTLS'' @ [CHR 0x0D, CHR 0x0A]"

definition POP3_COMMAND :: string where
  "POP3_COMMAND = ''STLS'' @ [CHR 0x0D, CHR 0x0A]"

definition IMAP_COMMAND :: string where
  "IMAP_COMMAND = ''a001 STARTTLS'' @ [CHR 0x0D, CHR 0x0A]"

text \<open>
  \<open>strconv.Atoi\<close>, after its documentation: an optional sign, then one or more decimal
  digits and nothing else, or \<open>ErrSyntax\<close>; a value outside the 64-bit \<open>int\<close> is
  \<open>ErrRange\<close>.
\<close>

definition digit_val :: "char \<Rightarrow> nat option" where
  "digit_val c =
     (if 48 \<le> (of_char c :: nat) \<and> (of_char c :: nat) \<le> 57 then Some (of_char c - 48) else None)"

fun parse_digits :: "nat \<Rightarrow> string \<Rightarrow> nat option" where
  "parse_digits acc [] = Some acc"
| "parse_digits acc (c # cs) =
     (case digit_val c of None \<Rightarrow> None | Some d \<Rightarrow> parse_digits (acc * 10 + d) cs)"

definition Atoi :: "string \<Rightarrow> error + int" where
  "Atoi s =
     (case s of
        [] \<Rightarrow> Inl ErrSyntax
      | c # cs \<Rightarrow>
          let ds = (if c = CHR ''-'' \<or> c = CHR ''+'' then cs else s) in
          if ds = [] then Inl ErrSyntax
          else (case parse_digits 0 ds of
                  None \<Rightarrow> Inl ErrSyntax
                | Some n \<Rightarrow>
                    let v = (if c = CHR ''-'' then - int n else int n) in
                    if v < - (2 ^ 63) \<or> 2 ^ 63 \<le> v then Inl ErrRange else Inr v))"

text \<open>\<open>strings.HasPrefix\<close>\<close>

definition HasPrefix :: "string \<Rightarrow> string \<Rightarrow> bool" where
  "HasPrefix s pre = (take (length pre) s = pre)"

subsection \<open>The TLS configuration and the TLS connection (package ztls)\<close>

type_synonym time = int

datatype CertPool = CertPool "x509_Certificate list"

text \<open>
  \<open>ztls.Config\<close>, the fields this file assigns. \<open>CipherSuites\<close> is a slice that is nil or
  one of the package's tables: the model keeps which one.
\<close>

record Config =
  InsecureSkipVerify :: bool
  MinVersion :: uint16
  MaxVersion :: uint16
  RootCAs :: "CertPool option"
  HeartbeatEnabled :: bool
  ClientDSAEnabled :: bool
  ServerName :: string
  CipherSuites :: "suite_table option"
  ForceSuites :: bool
  ExtendedRandom :: bool

text \<open>\<open>new(ztls.Config)\<close>\<close>

definition new_Config :: Config where
  "new_Config =
     \<lparr>InsecureSkipVerify = False, MinVersion = 0, MaxVersion = 0, RootCAs = None,
      HeartbeatEnabled = False, ClientDSAEnabled = False, ServerName = [],
      CipherSuites = None, ForceSuites = False, ExtendedRandom = False\<rparr>"

text \<open>\<open>ztls.VersionSSL30\<close>, the protocol's version number of SSL 3.0.\<close>

definition VersionSSL30 :: uint16 where
  "VersionSSL30 = 0x0300"

text \<open>
  The underlying \<open>net.Conn\<close>: what it sends and receives is the environment's; of the
  value itself this file reads the remote address.
\<close>

record net_Conn =
  remoteAddr :: string

text \<open>The log of a Heartbleed probe belongs to package ztls; the model keeps it opaque.\<close>

datatype Heartbleed = HeartbleedLog string

text \<open>
  \<open>ztls.Conn\<close>: the connection it wraps, its configuration, and the log that
  \<open>GetHandshakeLog\<close> returns. Deadlines are passed on to the wrapped connection.
\<close>

record ztls_Conn =
  tls_conn :: net_Conn
  tls_config :: Config
  handshakeLog :: "ServerHandshake option"

text \<open>\<open>ztls.Client(conn, config)\<close>\<close>

definition ztls_Client :: "net_Conn \<Rightarrow> Config \<Rightarrow> ztls_Conn" where
  "ztls_Client nc cfg = \<lparr>tls_conn = nc, tls_config = cfg, handshakeLog = None\<rparr>"

text \<open>\<open>func (c *Conn) GetHandshakeLog() *ServerHandshake\<close> of package ztls.\<close>

definition GetHandshakeLog :: "ztls_Conn \<Rightarrow> ServerHandshake option" where
  "GetHandshakeLog t = handshakeLog t"

subsection \<open>The result record and the connection\<close>

text \<open>
  The logs of the collaborators (HTTP, Modbus, FTP, SSH) are values of types declared in
  their packages; the model keeps each opaque.
\<close>

datatype HTTPRequestResponse = HTTPRequestResponse string
datatype ModbusEvent = ModbusEvent string
datatype FTPLog = FTPLog string
datatype SSHHandshakeLog = SSHHandshakeLog string
datatype SSHScanConfig = SSHScanConfig string

record SMTPHelpEvent =
  Response :: string

text \<open>\<open>GrabData\<close>, the fields this file assigns or reads.\<close>

record GrabData =
  Banner :: string
  Read :: string
  Write :: string
  EHLO :: string
  SMTPHelp :: "SMTPHelpEvent option"
  StartTLS :: string
  TLSHandshake :: "ServerHandshake option"
  HTTP :: "HTTPRequestResponse option"
  Heartbleed :: "Heartbleed option"
  Modbus :: "ModbusEvent option"
  FTP :: "FTPLog option"
  SSH :: "SSHHandshakeLog option"

definition zero_GrabData :: GrabData where
  "zero_GrabData =
     \<lparr>Banner = [], Read = [], Write = [], EHLO = [], SMTPHelp = None, StartTLS = [],
      TLSHandshake = None, HTTP = None, Heartbleed = None, Modbus = None, FTP = None,
      SSH = None\<rparr>"

record Conn =
  conn :: net_Conn
  tlsConn :: "ztls_Conn option"
  isTls :: bool
  grabData :: GrabData
  maxTlsVersion :: uint16
  readDeadline :: time
  writeDeadline :: time
  caPool :: "CertPool option"
  onlyDHE :: bool
  onlyExports :: bool
  onlyExportsDH :: bool
  chromeCiphers :: bool
  chromeNoDHE :: bool
  firefoxCiphers :: bool
  firefoxNoDHECiphers :: bool
  safariCiphers :: bool
  safariNoDHECiphers :: bool
  noSNI :: bool
  extendedRandom :: bool
  domain :: string
  ReadEncoding :: string
  sshScan :: "SSHScanConfig option"
  erroredComponent :: string

text \<open>A connection to \<open>addr\<close> with every other field at its zero value.\<close>

definition zero_Conn :: "string \<Rightarrow> Conn" where
  "zero_Conn addr =
     \<lparr>conn = \<lparr>remoteAddr = addr\<rparr>, tlsConn = None, isTls = False, grabData = zero_GrabData,
      maxTlsVersion = 0, readDeadline = 0, writeDeadline = 0, caPool = None,
      onlyDHE = False, onlyExports = False, onlyExportsDH = False, chromeCiphers = False,
      chromeNoDHE = False, firefoxCiphers = False, firefoxNoDHECiphers = False,
      safariCiphers = False, safariNoDHECiphers = False, noSNI = False,
      extendedRandom = False, domain = [], ReadEncoding = [], sshScan = None,
      erroredComponent = []\<rparr>"

text \<open>
  What a method does to the outside, in order. A method of the model returns its Go
  result, the connection as the call leaves it, and these events; or a panic.
\<close>

datatype io =
    IO_Write string
  | IO_Read
  | IO_Close
  | IO_SetDeadline
  | IO_Handshake Config
  | IO_Heartbleed
  | IO_Collaborator string

type_synonym 'a run = "panic + ('a \<times> Conn \<times> io list)"

text \<open>
  \<open>getUnderlyingConn\<close>. With \<open>isTls\<close> set it is the TLS connection, and a call through
  it reaches the connection that one wraps; on a nil \<open>tlsConn\<close> that call dereferences
  nil.
\<close>

definition getUnderlyingConn :: "Conn \<Rightarrow> panic + net_Conn" where
  "getUnderlyingConn c =
     (if isTls c then (case tlsConn c of None \<Rightarrow> Inl NilDereference | Some t \<Rightarrow> Inr (tls_conn t))
      else Inr (conn c))"

text \<open>\<open>c.RemoteAddr().String()\<close>\<close>

definition RemoteAddr_String :: "Conn \<Rightarrow> panic + string" where
  "RemoteAddr_String c = and_then (getUnderlyingConn c) (\<lambda>u. Inr (remoteAddr u))"

subsection \<open>The TLS handshake\<close>

text \<open>
  The configuration that \<open>TLSHandshake\<close> builds from the connection's settings, statement
  by statement: the cipher policy flags are tested one after the other, each with an
  \<open>if\<close> of its own.
\<close>

definition TLSHandshake_config :: "Conn \<Rightarrow> Config" where
  "TLSHandshake_config c =
    (let tlsConfig = new_Config;
         tlsConfig = tlsConfig\<lparr>InsecureSkipVerify := True\<rparr>;
         tlsConfig = tlsConfig\<lparr>MinVersion := VersionSSL30\<rparr>;
         tlsConfig = tlsConfig\<lparr>MaxVersion := maxTlsVersion c\<rparr>;
         tlsConfig = tlsConfig\<lparr>RootCAs := caPool c\<rparr>;
         tlsConfig = tlsConfig\<lparr>HeartbeatEnabled := True\<rparr>;
         tlsConfig = tlsConfig\<lparr>ClientDSAEnabled := True\<rparr>;
         tlsConfig = (if \<not> noSNI c \<and> domain c \<noteq> []
                      then tlsConfig\<lparr>ServerName := domain c\<rparr> else tlsConfig);
         tlsConfig = (if onlyDHE c
                      then tlsConfig\<lparr>CipherSuites := Some DHECiphers\<rparr> else tlsConfig);
         tlsConfig = (if onlyExports c
                      then tlsConfig\<lparr>CipherSuites := Some RSA512ExportCiphers\<rparr> else tlsConfig);
         tlsConfig = (if onlyExportsDH c
                      then tlsConfig\<lparr>CipherSuites := Some DHEExportCiphers\<rparr> else tlsConfig);
         tlsConfig = (if chromeCiphers c
                      then tlsConfig\<lparr>CipherSuites := Some ChromeCiphers\<rparr> else tlsConfig);
         tlsConfig = (if chromeNoDHE c
                      then tlsConfig\<lparr>CipherSuites := Some ChromeNoDHECiphers\<rparr> else tlsConfig);
         tlsConfig = (if firefoxCiphers c
                      then tlsConfig\<lparr>CipherSuites := Some FirefoxCiphers\<rparr> else tlsConfig);
         tlsConfig = (if firefoxNoDHECiphers c
                      then tlsConfig\<lparr>CipherSuites := Some FirefoxNoDHECiphers\<rparr> else tlsConfig);
         tlsConfig = (if safariCiphers c
                      then tlsConfig\<lparr>CipherSuites := Some SafariCiphers, ForceSuites := True\<rparr>
                      else tlsConfig);
         tlsConfig = (if safariNoDHECiphers c
                      then tlsConfig\<lparr>CipherSuites := Some SafariNoDHECiphers, ForceSuites := True\<rparr>
                      else tlsConfig);
         tlsConfig = (if extendedRandom c
                      then tlsConfig\<lparr>ExtendedRandom := True\<rparr> else tlsConfig)
     in tlsConfig)"

text \<open>
  \<open>func (c *Conn) TLSHandshake() error\<close>. The environment's answer \<open>hs\<close> is what
  \<open>c.tlsConn.Handshake()\<close> returns and the log that the TLS connection holds afterwards.
\<close>

definition Conn_TLSHandshake ::
  "error option \<times> ServerHandshake option \<Rightarrow> Conn \<Rightarrow> error option run" where
  "Conn_TLSHandshake hs c =
    (if isTls c then
       and_then (RemoteAddr_String c) (\<lambda>addr.
         Inr (Some (Errorf (''Attempted repeat handshake with remote host '' @ addr)), c, []))
     else
       let tlsConfig = TLSHandshake_config c;
           c = c\<lparr>tlsConn := Some (ztls_Client (conn c) tlsConfig)\<rparr>;
           c = c\<lparr>isTls := True\<rparr>;
           err = fst hs;
           c = c\<lparr>tlsConn := map_option (\<lambda>t. t\<lparr>handshakeLog := snd hs\<rparr>) (tlsConn c)\<rparr>;
           err = (if ForceSuites tlsConfig \<and> err = Some ErrUnimplementedCipher then None else err)
       in (case tlsConn c of
             None \<Rightarrow> Inl NilDereference
           | Some t \<Rightarrow>
               let hl = GetHandshakeLog t;
                   c = c\<lparr>grabData := (grabData c)\<lparr>TLSHandshake := hl\<rparr>\<rparr>
               in Inr (err, c, [IO_SetDeadline, IO_SetDeadline, IO_Handshake tlsConfig])))"

subsection \<open>STARTTLS\<close>

text \<open>
  \<open>sendStartTLSCommand\<close>. The environment's answer \<open>w\<close> is what \<open>c.conn.Write\<close> returns.
\<close>

definition sendStartTLSCommand :: "string \<Rightarrow> nat \<times> error option \<Rightarrow> Conn \<Rightarrow> error option run" where
  "sendStartTLSCommand command w c =
    (if isTls c then
       and_then (RemoteAddr_String c) (\<lambda>addr.
         Inr (Some (Errorf (''Attempt STARTTLS after TLS handshake with remote host '' @ addr)),
              c, []))
     else
       let starttls = command;
           err = snd w
       in Inr (err, c, [IO_Write starttls]))"

text \<open>
  \<open>util.ReadUntilRegex(c.getUnderlyingConn(), res, regex)\<close> is declared outside these
  files, and what it reads is the peer's. The environment's answer \<open>rd\<close> is the bytes it
  stored at the front of \<open>res\<close> and the error it returns; the model returns the buffer
  after the call, the count \<open>n\<close> and the error. The three readers of this file differ
  in the pattern they pass, which is the environment's concern. A plain \<open>Read\<close> of the
  active connection has the same shape.
\<close>

definition read_into :: "nat \<Rightarrow> string \<times> error option \<Rightarrow> Conn \<Rightarrow> panic + (string \<times> nat \<times> error option)" where
  "read_into len rd c =
     and_then (getUnderlyingConn c) (\<lambda>u.
       Inr (take len (fst rd @ replicate len (CHR 0x00)), length (fst rd), snd rd))"

definition readSmtpResponse :: "nat \<Rightarrow> string \<times> error option \<Rightarrow> Conn \<Rightarrow> panic + (string \<times> nat \<times> error option)" where
  "readSmtpResponse len rd c = read_into len rd c"

definition readPop3Response :: "nat \<Rightarrow> string \<times> error option \<Rightarrow> Conn \<Rightarrow> panic + (string \<times> nat \<times> error option)" where
  "readPop3Response len rd c = read_into len rd c"

definition readImapStatusResponse :: "nat \<Rightarrow> string \<times> error option \<Rightarrow> Conn \<Rightarrow> panic + (string \<times> nat \<times> error option)" where
  "readImapStatusResponse len rd c = read_into len rd c"

text \<open>
  \<open>func (c *Conn) SMTPStartTLSHandshake() error\<close>, with the environment's answers to the
  write, to the read and to the handshake.
\<close>

definition Conn_SMTPStartTLSHandshake ::
  "nat \<times> error option \<Rightarrow> string \<times> error option \<Rightarrow> error option \<times> ServerHandshake option \<Rightarrow>
     Conn \<Rightarrow> error option run" where
  "Conn_SMTPStartTLSHandshake w rd hs c =
    and_then (sendStartTLSCommand SMTP_COMMAND w c) (\<lambda>(err, c, tr1).
    if err \<noteq> None then Inr (err, c, tr1) else
    and_then (readSmtpResponse 256 rd c) (\<lambda>(buf, n, err).
    and_then (slice_to buf n) (\<lambda>s.
    let c = c\<lparr>grabData := (grabData c)\<lparr>StartTLS := s\<rparr>\<rparr>;
        err = (if n < 5 then Some (Errorf ''Server did not indicate support for STARTTLS'') else err)
    in
    and_then
      (if err = None then
         and_then (slice_to (StartTLS (grabData c)) 3) (\<lambda>code.
           (case Atoi code of
              Inl e \<Rightarrow> Inr (Some (Errorf ''Bad return code for STARTTLS''))
            | Inr ret \<Rightarrow>
                if ret < 200 \<or> ret \<ge> 300 then Inr (Some (Errorf ''Bad return code for STARTTLS''))
                else Inr None))
       else Inr err) (\<lambda>err.
    if err \<noteq> None then Inr (err, c, tr1 @ [IO_Read]) else
    and_then (Conn_TLSHandshake hs c) (\<lambda>(r, c, tr2). Inr (r, c, tr1 @ [IO_Read] @ tr2))))))"

definition Conn_POP3StartTLSHandshake ::
  "nat \<times> error option \<Rightarrow> string \<times> error option \<Rightarrow> error option \<times> ServerHandshake option \<Rightarrow>
     Conn \<Rightarrow> error option run" where
  "Conn_POP3StartTLSHandshake w rd hs c =
    and_then (sendStartTLSCommand POP3_COMMAND w c) (\<lambda>(err, c, tr1).
    if err \<noteq> None then Inr (err, c, tr1) else
    and_then (readPop3Response 512 rd c) (\<lambda>(buf, n, err).
    and_then (slice_to buf n) (\<lambda>s.
    let c = c\<lparr>grabData := (grabData c)\<lparr>StartTLS := s\<rparr>\<rparr>;
        err = (if err = None \<and> \<not> HasPrefix (StartTLS (grabData c)) ''+''
               then Some (Errorf ''Server did not indicate support for STARTTLS'') else err)
    in
    if err \<noteq> None then Inr (err, c, tr1 @ [IO_Read]) else
    and_then (Conn_TLSHandshake hs c) (\<lambda>(r, c, tr2). Inr (r, c, tr1 @ [IO_Read] @ tr2)))))"

definition Conn_IMAPStartTLSHandshake ::
  "nat \<times> error option \<Rightarrow> string \<times> error option \<Rightarrow> error option \<times> ServerHandshake option \<Rightarrow>
     Conn \<Rightarrow> error option run" where
  "Conn_IMAPStartTLSHandshake w rd hs c =
    and_then (sendStartTLSCommand IMAP_COMMAND w c) (\<lambda>(err, c, tr1).
    if err \<noteq> None then Inr (err, c, tr1) else
    and_then (readImapStatusResponse 512 rd c) (\<lambda>(buf, n, err).
    and_then (slice_to buf n) (\<lambda>s.
    let c = c\<lparr>grabData := (grabData c)\<lparr>StartTLS := s\<rparr>\<rparr>;
        err = (if err = None \<and> \<not> HasPrefix (StartTLS (grabData c)) ''a001 OK''
               then Some (Errorf ''Server did not indicate support for STARTTLS'') else err)
    in
    if err \<noteq> None then Inr (err, c, tr1 @ [IO_Read]) else
    and_then (Conn_TLSHandshake hs c) (\<lambda>(r, c, tr2). Inr (r, c, tr1 @ [IO_Read] @ tr2)))))"

subsection \<open>The Heartbleed probe\<close>

text \<open>
  \<open>func (c *Conn) CheckHeartbleed(b []byte) (int, error)\<close>. The environment's answer
  \<open>hb\<close> is what \<open>c.tlsConn.CheckHeartbleed(b)\<close> returns and the log that
  \<open>GetHeartbleedLog\<close> returns after it.
\<close>

definition Conn_CheckHeartbleed ::
  "(int \<times> error option) \<times> Heartbleed option \<Rightarrow> byte list \<Rightarrow> Conn \<Rightarrow> (int \<times> error option) run" where
  "Conn_CheckHeartbleed hb b c =
    (if \<not> isTls c then
       and_then (RemoteAddr_String c) (\<lambda>addr.
         Inr ((0, Some (Errorf (''Must perform TLS handshake before sending Heartbleed probe to ''
                                 @ addr))), c, []))
     else
       (case tlsConn c of
          None \<Rightarrow> Inl NilDereference
        | Some t \<Rightarrow>
            let n = fst (fst hb);
                err = snd (fst hb);
                hbl = snd hb;
                err = (if err = Some HeartbleedError then None else err);
                c = c\<lparr>grabData := (grabData c)\<lparr>Heartbleed := hbl\<rparr>\<rparr>
            in Inr ((n, err), c, [IO_Heartbleed])))"

subsection \<open>Settings\<close>

definition SetDHEOnly :: "Conn \<Rightarrow> Conn" where
  "SetDHEOnly c = c\<lparr>onlyDHE := True\<rparr>"

definition SetExportsOnly :: "Conn \<Rightarrow> Conn" where
  "SetExportsOnly c = c\<lparr>onlyExports := True\<rparr>"

definition SetExportsDHOnly :: "Conn \<Rightarrow> Conn" where
  "SetExportsDHOnly c = c\<lparr>onlyExportsDH := True\<rparr>"

definition SetChromeCiphers :: "Conn \<Rightarrow> Conn" where
  "SetChromeCiphers c = c\<lparr>chromeCiphers := True\<rparr>"

definition SetChromeNoDHECiphers :: "Conn \<Rightarrow> Conn" where
  "SetChromeNoDHECiphers c = c\<lparr>chromeNoDHE := True\<rparr>"

definition SetFirefoxCiphers :: "Conn \<Rightarrow> Conn" where
  "SetFirefoxCiphers c = c\<lparr>firefoxCiphers := True\<rparr>"

definition SetFirefoxNoDHECiphers :: "Conn \<Rightarrow> Conn" where
  "SetFirefoxNoDHECiphers c = c\<lparr>firefoxNoDHECiphers := True\<rparr>"

definition SetSafariCiphers :: "Conn \<Rightarrow> Conn" where
  "SetSafariCiphers c = c\<lparr>safariCiphers := True\<rparr>"

definition SetSafariNoDHECiphers :: "Conn \<Rightarrow> Conn" where
  "SetSafariNoDHECiphers c = c\<lparr>safariNoDHECiphers := True\<rparr>"

definition SetExtendedRandom :: "Conn \<Rightarrow> Conn" where
  "SetExtendedRandom c = c\<lparr>extendedRandom := True\<rparr>"

definition SetCAPool :: "CertPool option \<Rightarrow> Conn \<Rightarrow> Conn" where
  "SetCAPool pool c = c\<lparr>caPool := pool\<rparr>"

definition SetDomain :: "string \<Rightarrow> Conn \<Rightarrow> Conn" where
  "SetDomain d c = c\<lparr>domain := d\<rparr>"

definition SetNoSNI :: "Conn \<Rightarrow> Conn" where
  "SetNoSNI c = c\<lparr>noSNI := True\<rparr>"

subsection \<open>Operations passed on to the active connection\<close>

text \<open>
  Each takes the environment's answer to the call it passes on: the error for a
  deadline or a close, the count and the error for a write, the bytes stored and the
  error for a read.
\<close>

definition Conn_SetDeadline :: "error option \<Rightarrow> time \<Rightarrow> Conn \<Rightarrow> error option run" where
  "Conn_SetDeadline e t c =
    (let c = c\<lparr>readDeadline := t\<rparr>;
         c = c\<lparr>writeDeadline := t\<rparr>
     in and_then (getUnderlyingConn c) (\<lambda>u. Inr (e, c, [IO_SetDeadline])))"

definition Conn_SetReadDeadline :: "error option \<Rightarrow> time \<Rightarrow> Conn \<Rightarrow> error option run" where
  "Conn_SetReadDeadline e t c =
    (let c = c\<lparr>readDeadline := t\<rparr>
     in and_then (getUnderlyingConn c) (\<lambda>u. Inr (e, c, [IO_SetDeadline])))"

definition Conn_SetWriteDeadline :: "error option \<Rightarrow> time \<Rightarrow> Conn \<Rightarrow> error option run" where
  "Conn_SetWriteDeadline e t c =
    (let c = c\<lparr>writeDeadline := t\<rparr>
     in and_then (getUnderlyingConn c) (\<lambda>u. Inr (e, c, [IO_SetDeadline])))"

definition Conn_Write :: "nat \<times> error option \<Rightarrow> string \<Rightarrow> Conn \<Rightarrow> (nat \<times> error option) run" where
  "Conn_Write w b c =
    and_then (getUnderlyingConn c) (\<lambda>u.
    let n = fst w; err = snd w in
    and_then (slice_to b n) (\<lambda>s.
    let c = c\<lparr>grabData := (grabData c)\<lparr>Write := s\<rparr>\<rparr>
    in Inr ((n, err), c, [IO_Write b])))"

definition Conn_BasicBanner :: "string \<times> error option \<Rightarrow> Conn \<Rightarrow> (string \<times> error option) run" where
  "Conn_BasicBanner rd c =
    and_then (read_into 1024 rd c) (\<lambda>(b, n, err).
    and_then (slice_to b n) (\<lambda>s.
    let c = c\<lparr>grabData := (grabData c)\<lparr>Banner := s\<rparr>\<rparr>
    in Inr ((Banner (grabData c), err), c, [IO_Read])))"

definition Conn_Read :: "string \<times> error option \<Rightarrow> nat \<Rightarrow> Conn \<Rightarrow> (nat \<times> error option) run" where
  "Conn_Read rd len c =
    and_then (read_into len rd c) (\<lambda>(b, n, err).
    and_then (slice_to b n) (\<lambda>s.
    let c = c\<lparr>grabData := (grabData c)\<lparr>Read := s\<rparr>\<rparr>
    in Inr ((n, err), c, [IO_Read])))"

definition Conn_Close :: "error option \<Rightarrow> Conn \<Rightarrow> error option run" where
  "Conn_Close e c = and_then (getUnderlyingConn c) (\<lambda>u. Inr (e, c, [IO_Close]))"

definition Conn_SMTPBanner :: "string \<times> error option \<Rightarrow> nat \<Rightarrow> Conn \<Rightarrow> (nat \<times> error option) run" where
  "Conn_SMTPBanner rd len c =
    and_then (readSmtpResponse len rd c) (\<lambda>(b, n, err).
    and_then (slice_to b n) (\<lambda>s.
    let c = c\<lparr>grabData := (grabData c)\<lparr>Banner := s\<rparr>\<rparr>
    in Inr ((n, err), c, [IO_Read])))"

definition Conn_POP3Banner :: "string \<times> error option \<Rightarrow> nat \<Rightarrow> Conn \<Rightarrow> (nat \<times> error option) run" where
  "Conn_POP3Banner rd len c =
    and_then (readPop3Response len rd c) (\<lambda>(b, n, err).
    and_then (slice_to b n) (\<lambda>s.
    let c = c\<lparr>grabData := (grabData c)\<lparr>Banner := s\<rparr>\<rparr>
    in Inr ((n, err), c, [IO_Read])))"

definition Conn_IMAPBanner :: "string \<times> error option \<Rightarrow> nat \<Rightarrow> Conn \<Rightarrow> (nat \<times> error option) run" where
  "Conn_IMAPBanner rd len c =
    and_then (readImapStatusResponse len rd c) (\<lambda>(b, n, err).
    and_then (slice_to b n) (\<lambda>s.
    let c = c\<lparr>grabData := (grabData c)\<lparr>Banner := s\<rparr>\<rparr>
    in Inr ((n, err), c, [IO_Read])))"

definition Conn_EHLO ::
  "nat \<times> error option \<Rightarrow> string \<times> error option \<Rightarrow> string \<Rightarrow> Conn \<Rightarrow> error option run" where
  "Conn_EHLO w rd dn c =
    (let cmd = ''EHLO '' @ dn @ [CHR 0x0D, CHR 0x0A] in
     and_then (getUnderlyingConn c) (\<lambda>u.
     if snd w \<noteq> None then Inr (snd w, c, [IO_Write cmd]) else
     and_then (readSmtpResponse 512 rd c) (\<lambda>(buf, n, err).
     and_then (slice_to buf n) (\<lambda>s.
     let c = c\<lparr>grabData := (grabData c)\<lparr>EHLO := s\<rparr>\<rparr>
     in Inr (err, c, [IO_Write cmd, IO_Read])))))"

definition Conn_SMTPHelp ::
  "nat \<times> error option \<Rightarrow> string \<times> error option \<Rightarrow> Conn \<Rightarrow> error option run" where
  "Conn_SMTPHelp w rd c =
    (let cmd = ''HELP'' @ [CHR 0x0D, CHR 0x0A];
         h = \<lparr>Response = []\<rparr> in
     and_then (getUnderlyingConn c) (\<lambda>u.
     if snd w \<noteq> None
     then Inr (snd w, c\<lparr>grabData := (grabData c)\<lparr>SMTPHelp := Some h\<rparr>\<rparr>, [IO_Write cmd]) else
     and_then (readSmtpResponse 512 rd c) (\<lambda>(buf, n, err).
     and_then (slice_to buf n) (\<lambda>s.
     let h = h\<lparr>Response := s\<rparr>;
         c = c\<lparr>grabData := (grabData c)\<lparr>SMTPHelp := Some h\<rparr>\<rparr>
     in Inr (err, c, [IO_Write cmd, IO_Read])))))"

subsection \<open>Operations of the collaborators\<close>

text \<open>
  \<open>HTTP\<close>, \<open>SendModbusEcho\<close>, \<open>GetFTPSCertificates\<close> and \<open>SSHHandshake\<close> hand the
  connection to net/http, to the Modbus codec, to package ftp and to package ssh. Of
  each the model keeps which fields of the connection it assigns; the values assigned,
  the result, and whether the collaborator panics are the environment's answer.
  \<open>doHTTP\<close> assigns \<open>grabData.HTTP\<close> and, on a redirect, \<open>domain\<close>.
\<close>

definition Conn_HTTP ::
  "panic + (HTTPRequestResponse option \<times> string \<times> error option) \<Rightarrow> Conn \<Rightarrow> error option run" where
  "Conn_HTTP env c =
    and_then env (\<lambda>(h, d, err).
      Inr (err, c\<lparr>grabData := (grabData c)\<lparr>HTTP := h\<rparr>, domain := d\<rparr>, [IO_Collaborator ''http'']))"

definition Conn_SendModbusEcho ::
  "panic + (ModbusEvent option \<times> int \<times> error option) \<Rightarrow> Conn \<Rightarrow> (int \<times> error option) run" where
  "Conn_SendModbusEcho env c =
    and_then env (\<lambda>(ev, w, err).
      Inr ((w, err), c\<lparr>grabData := (grabData c)\<lparr>Modbus := ev\<rparr>\<rparr>, [IO_Collaborator ''modbus'']))"

definition Conn_GetFTPSCertificates ::
  "panic + (FTPLog option \<times> bool \<times> error option) \<Rightarrow> error option \<times> ServerHandshake option \<Rightarrow>
     Conn \<Rightarrow> error option run" where
  "Conn_GetFTPSCertificates env hs c =
    and_then env (\<lambda>(log, ftpsReady, err).
    let c = c\<lparr>grabData := (grabData c)\<lparr>FTP := log\<rparr>\<rparr> in
    if err \<noteq> None then Inr (err, c, [IO_Collaborator ''ftp''])
    else if ftpsReady then
      and_then (Conn_TLSHandshake hs c) (\<lambda>(r, c, tr). Inr (r, c, IO_Collaborator ''ftp'' # tr))
    else Inr (None, c, [IO_Collaborator ''ftp'']))"

definition Conn_SSHHandshake ::
  "panic + (SSHHandshakeLog option \<times> error option) \<Rightarrow> Conn \<Rightarrow> error option run" where
  "Conn_SSHHandshake env c =
    and_then env (\<lambda>(handshakeLog, err).
      Inr (err, c\<lparr>grabData := (grabData c)\<lparr>SSH := handshakeLog\<rparr>\<rparr>, [IO_Collaborator ''ssh'']))"

subsection \<open>Sequences of operations\<close>

text \<open>
  Every method of \<open>Conn\<close> that can change the connection, with the arguments of the call
  and the environment's answers.
\<close>

datatype op =
    OpSetDHEOnly | OpSetExportsOnly | OpSetExportsDHOnly
  | OpSetChromeCiphers | OpSetChromeNoDHECiphers
  | OpSetFirefoxCiphers | OpSetFirefoxNoDHECiphers
  | OpSetSafariCiphers | OpSetSafariNoDHECiphers
  | OpSetExtendedRandom | OpSetCAPool "CertPool option" | OpSetDomain string | OpSetNoSNI
  | OpSetDeadline "error option" time
  | OpSetReadDeadline "error option" time
  | OpSetWriteDeadline "error option" time
  | OpWrite "nat \<times> error option" string
  | OpBasicBanner "string \<times> error option"
  | OpRead "string \<times> error option" nat
  | OpClose "error option"
  | OpHTTP "panic + (HTTPRequestResponse option \<times> string \<times> error option)"
  | OpTLSHandshake "error option \<times> ServerHandshake option"
  | OpSendStartTLSCommand string "nat \<times> error option"
  | OpSMTPStartTLSHandshake "nat \<times> error option" "string \<times> error option"
      "error option \<times> ServerHandshake option"
  | OpPOP3StartTLSHandshake "nat \<times> error option" "string \<times> error option"
      "error option \<times> ServerHandshake option"
  | OpIMAPStartTLSHandshake "nat \<times> error option" "string \<times> error option"
      "error option \<times> ServerHandshake option"
  | OpSMTPBanner "string \<times> error option" nat
  | OpEHLO "nat \<times> error option" "string \<times> error option" string
  | OpSMTPHelp "nat \<times> error option" "string \<times> error option"
  | OpPOP3Banner "string \<times> error option" nat
  | OpIMAPBanner "string \<times> error option" nat
  | OpCheckHeartbleed "(int \<times> error option) \<times> Heartbleed option" "byte list"
  | OpSendModbusEcho "panic + (ModbusEvent option \<times> int \<times> error option)"
  | OpGetFTPSCertificates "panic + (FTPLog option \<times> bool \<times> error option)"
      "error option \<times> ServerHandshake option"
  | OpSSHHandshake "panic + (SSHHandshakeLog option \<times> error option)"

text \<open>The connection after a call, when the call returns.\<close>

definition after :: "'a run \<Rightarrow> panic + Conn" where
  "after m = and_then m (\<lambda>(r, c, tr). Inr c)"

fun exec :: "op \<Rightarrow> Conn \<Rightarrow> panic + Conn" where
  "exec OpSetDHEOnly c = Inr (SetDHEOnly c)"
| "exec OpSetExportsOnly c = Inr (SetExportsOnly c)"
| "exec OpSetExportsDHOnly c = Inr (SetExportsDHOnly c)"
| "exec OpSetChromeCiphers c = Inr (SetChromeCiphers c)"
| "exec OpSetChromeNoDHECiphers c = Inr (SetChromeNoDHECiphers c)"
| "exec OpSetFirefoxCiphers c = Inr (SetFirefoxCiphers c)"
| "exec OpSetFirefoxNoDHECiphers c = Inr (SetFirefoxNoDHECiphers c)"
| "exec OpSetSafariCiphers c = Inr (SetSafariCiphers c)"
| "exec OpSetSafariNoDHECiphers c = Inr (SetSafariNoDHECiphers c)"
| "exec OpSetExtendedRandom c = Inr (SetExtendedRandom c)"
| "exec (OpSetCAPool pool) c = Inr (SetCAPool pool c)"
| "exec (OpSetDomain d) c = Inr (SetDomain d c)"
| "exec OpSetNoSNI c = Inr (SetNoSNI c)"
| "exec (OpSetDeadline e t) c = after (Conn_SetDeadline e t c)"
| "exec (OpSetReadDeadline e t) c = after (Conn_SetReadDeadline e t c)"
| "exec (OpSetWriteDeadline e t) c = after (Conn_SetWriteDeadline e t c)"
| "exec (OpWrite w b) c = after (Conn_Write w b c)"
| "exec (OpBasicBanner rd) c = after (Conn_BasicBanner rd c)"
| "exec (OpRead rd len) c = after (Conn_Read rd len c)"
| "exec (OpClose e) c = after (Conn_Close e c)"
| "exec (OpHTTP env) c = after (Conn_HTTP env c)"
| "exec (OpTLSHandshake hs) c = after (Conn_TLSHandshake hs c)"
| "exec (OpSendStartTLSCommand cmd w) c = after (sendStartTLSCommand cmd w c)"
| "exec (OpSMTPStartTLSHandshake w rd hs) c = after (Conn_SMTPStartTLSHandshake w rd hs c)"
| "exec (OpPOP3StartTLSHandshake w rd hs) c = after (Conn_POP3StartTLSHandshake w rd hs c)"
| "exec (OpIMAPStartTLSHandshake w rd hs) c = after (Conn_IMAPStartTLSHandshake w rd hs c)"
| "exec (OpSMTPBanner rd len) c = after (Conn_SMTPBanner rd len c)"
| "exec (OpEHLO w rd dn) c = after (Conn_EHLO w rd dn c)"
| "exec (OpSMTPHelp w rd) c = after (Conn_SMTPHelp w rd c)"
| "exec (OpPOP3Banner rd len) c = after (Conn_POP3Banner rd len c)"
| "exec (OpIMAPBanner rd len) c = after (Conn_IMAPBanner rd len c)"
| "exec (OpCheckHeartbleed hb b) c = after (Conn_CheckHeartbleed hb b c)"
| "exec (OpSendModbusEcho env) c = after (Conn_SendModbusEcho env c)"
| "exec (OpGetFTPSCertificates env hs) c = after (Conn_GetFTPSCertificates env hs c)"
| "exec (OpSSHHandshake env) c = after (Conn_SSHHandshake env c)"

fun run_ops :: "op list \<Rightarrow> Conn \<Rightarrow> panic + Conn" where
  "run_ops [] c = Inr c"
| "run_ops (x # xs) c = and_then (exec x c) (run_ops xs)"

subsection \<open>The cipher policy, as the handshake's configuration is specified\<close>

text \<open>
  The policy flags in the order in which \<open>TLSHandshake\<close> tests them, each with the table
  it selects; the tables of the flags that are set on a connection, in that order; and
  how many flags are set.
\<close>

definition policy_flags :: "((Conn \<Rightarrow> bool) \<times> suite_table) list" where
  "policy_flags =
     [(onlyDHE, DHECiphers), (onlyExports, RSA512ExportCiphers),
      (onlyExportsDH, DHEExportCiphers), (chromeCiphers, ChromeCiphers),
      (chromeNoDHE, ChromeNoDHECiphers), (firefoxCiphers, FirefoxCiphers),
      (firefoxNoDHECiphers, FirefoxNoDHECiphers), (safariCiphers, SafariCiphers),
      (safariNoDHECiphers, SafariNoDHECiphers)]"

definition set_policies :: "Conn \<Rightarrow> suite_table list" where
  "set_policies c = map snd (filter (\<lambda>(flag, t). flag c) policy_flags)"

text \<open>The tables of the browser-emulation profiles.\<close>

definition browser_tables :: "suite_table list" where
  "browser_tables =
     [ChromeCiphers, ChromeNoDHECiphers, FirefoxCiphers, FirefoxNoDHECiphers,
      SafariCiphers, SafariNoDHECiphers]"

subsection \<open>The STARTTLS reply of an SMTP server, as the upgrade is specified\<close>

text \<open>
  A reply is accepted when the read succeeded, it has at least five bytes, and its first
  three characters parse as an integer from 200 to 299.
\<close>

definition smtp_accepts :: "string \<times> error option \<Rightarrow> bool" where
  "smtp_accepts rd =
     (snd rd = None \<and> 5 \<le> length (fst rd)
      \<and> (case Atoi (take 3 (fst rd)) of Inl e \<Rightarrow> False | Inr k \<Rightarrow> 200 \<le> k \<and> k \<le> 299))"

section \<open>Properties of the Diffie-Hellman decoder\<close>

lemma unat_ucast_byte: "unat (ucast (l::byte) :: uint16) = unat l"
  by (simp add: unsigned_ucast_eq take_bit_nat_eq_self unsigned_less[THEN less_trans])

lemma unat_push_byte: "unat (push_bit 8 (ucast (h::byte) :: uint16)) = unat h * 256"
proof -
  have "unat h < 256" using unsigned_less[of h] by simp
  then have "unat h * 256 < 65536" by simp
  then show ?thesis
    by (simp add: push_bit_eq_mult unat_word_ariths unat_ucast_byte)
qed

lemma bytes_disjoint: "(ucast (l::byte) :: uint16) AND push_bit 8 (ucast (h::byte) :: uint16) = 0"
  by (rule bit_eqI) (auto simp: bit_simps dest: bit_imp_le_length)

lemma unat_be16:
  "unat ((ucast (l::byte) :: uint16) OR push_bit 8 (ucast (h::byte) :: uint16)) = unat h * 256 + unat l"
proof -
  have "unat l < 256" "unat h < 256" using unsigned_less[of l] unsigned_less[of h] by simp_all
  then have b: "unat l + unat h * 256 < 2 ^ 16" by simp
  have "(ucast l :: uint16) OR push_bit 8 (ucast h) = ucast l + push_bit 8 (ucast h)"
    by (rule disjunctive_add_eq_or[symmetric]) (rule bytes_disjoint)
  then show ?thesis using b
    by (simp add: unat_word_ariths unat_ucast_byte unat_push_byte)
qed

lemma unat_be16_len:
  assumes "n < 65536"
  shows "unat ((ucast (of_nat (n mod 256) :: byte) :: uint16) OR push_bit 8 (ucast (of_nat (n div 256) :: byte) :: uint16)) = n"
proof -
  have "unat (of_nat (n div 256) :: byte) = n div 256" using assms by (simp add: unat_of_nat)
  moreover have "unat (of_nat (n mod 256) :: byte) = n mod 256" by (simp add: unat_of_nat)
  ultimately show ?thesis by (simp add: unat_be16)
qed

lemma SetBytes_snoc: "SetBytes (bs @ [b]) = SetBytes bs * 256 + unat b"
  by (simp add: SetBytes_def)

lemma magnitude_snoc: "magnitude (bs @ [b]) = magnitude bs * 256 + unat b"
proof -
  have "(\<Sum>i<length bs. unat ((bs @ [b]) ! i) * 256 ^ (length bs - i))
      = (\<Sum>i<length bs. (unat (bs ! i) * 256 ^ (length bs - 1 - i)) * 256)"
  proof (rule sum.cong)
    fix i assume "i \<in> {..<length bs}"
    then have i: "i < length bs" by simp
    then have "length bs - i = Suc (length bs - 1 - i)" by simp
    with i show "unat ((bs @ [b]) ! i) * 256 ^ (length bs - i) = (unat (bs ! i) * 256 ^ (length bs - 1 - i)) * 256"
      by (simp add: nth_append)
  qed simp
  then show ?thesis
    by (simp add: magnitude_def sum_distrib_right)
qed

lemma SetBytes_magnitude: "SetBytes bs = magnitude bs"
proof (induction bs rule: rev_induct)
  case Nil
  show ?case by (simp add: SetBytes_def magnitude_def)
next
  case (snoc b bs)
  then show ?case by (simp add: SetBytes_snoc magnitude_snoc)
qed


lemma unmarshal_unfold:
  "DHParams_unmarshal p buf = Inr
     (case take_field buf of None \<Rightarrow> (False, p) | Some (pb, r1) \<Rightarrow>
        (case take_field r1 of None \<Rightarrow> (False, p\<lparr>P := Some (SetBytes pb)\<rparr>) | Some (gb, r2) \<Rightarrow>
          (case take_field r2 of None \<Rightarrow> (False, p\<lparr>P := Some (SetBytes pb), G := Some (SetBytes gb)\<rparr>)
           | Some (yb, r3) \<Rightarrow>
              (True, p\<lparr>P := Some (SetBytes pb), G := Some (SetBytes gb), Ys := Some (SetBytes yb)\<rparr>))))"
  by (simp add: DHParams_unmarshal_def BigEndian_Uint16_def slice_from_def slice_to_def
      and_then_def Let_def take_field_def unat_be16)

lemma take_field_field:
  "length bs < 65536 \<Longrightarrow> take_field (field bs @ rest) = Some (bs, rest)"
  by (simp add: take_field_def field_def unat_of_nat Let_def)

lemma truncated_Suc:
  "truncated (Suc k) buf = (case take_field buf of None \<Rightarrow> True | Some (bs, rest) \<Rightarrow> truncated k rest)"
  by (simp add: take_field_def Let_def)

lemma unmarshal_total: "\<exists>ok p'. DHParams_unmarshal p buf = Inr (ok, p')"
  by (simp add: unmarshal_unfold)

lemma unmarshal_ok_iff:
  "DHParams_unmarshal p buf = Inr (ok, p') \<Longrightarrow> ok = (\<not> truncated 3 buf)"
  unfolding numeral_3_eq_3 truncated_Suc unmarshal_unfold
  by (auto split: option.splits)

lemma unmarshal_fields:
  assumes "length pb < 65536" "length gb < 65536" "length yb < 65536"
  shows "DHParams_unmarshal p (field pb @ field gb @ field yb)
     = Inr (True, p\<lparr>P := Some (magnitude pb), G := Some (magnitude gb), Ys := Some (magnitude yb)\<rparr>)"
  using assms take_field_field[of yb "[]"]
  by (simp add: unmarshal_unfold take_field_field SetBytes_magnitude)

text \<open>
  C1. A buffer made of exactly three well-formed length-prefixed fields (prime, generator,
  server public value) decodes with \<open>ok = true\<close>, and \<open>P\<close>, \<open>G\<close> and \<open>Ys\<close> are the
  unsigned big-endian magnitudes of the three fields. A buffer in which fewer than two
  bytes remain where a length prefix is expected, or in which a declared length exceeds
  the bytes that remain, decodes with \<open>ok = false\<close>; the call returns and does not panic.
\<close>

theorem DHParams_unmarshal_correct:
  "(length pb < 65536 \<and> length gb < 65536 \<and> length yb < 65536 \<longrightarrow>
      DHParams_unmarshal p (field pb @ field gb @ field yb) =
        Inr (True, p\<lparr>P := Some (magnitude pb), G := Some (magnitude gb), Ys := Some (magnitude yb)\<rparr>))
   \<and> (truncated 3 buf \<longrightarrow> (\<exists>p'. DHParams_unmarshal p buf = Inr (False, p')))"
proof (intro conjI impI)
  assume "length pb < 65536 \<and> length gb < 65536 \<and> length yb < 65536"
  then show "DHParams_unmarshal p (field pb @ field gb @ field yb) =
        Inr (True, p\<lparr>P := Some (magnitude pb), G := Some (magnitude gb), Ys := Some (magnitude yb)\<rparr>)"
    by (simp add: unmarshal_fields)
next
  assume t: "truncated 3 buf"
  obtain ok p' where r: "DHParams_unmarshal p buf = Inr (ok, p')"
    using unmarshal_total by blast
  from unmarshal_ok_iff [OF r] t have "ok = False" by simp
  with r show "\<exists>p'. DHParams_unmarshal p buf = Inr (False, p')" by blast
qed

theorem DHParams_unmarshal_correct_witness:
  "DHParams_unmarshal new_DHParams (field [1, 2] @ field [3] @ field [4, 5, 6]) =
      Inr (True, \<lparr>P = Some 258, G = Some 3, Ys = Some 263430\<rparr>)
   \<and> truncated 3 [0, 1, 7, 0, 2, 3]
   \<and> (\<exists>p'. DHParams_unmarshal new_DHParams [0, 1, 7, 0, 2, 3] = Inr (False, p'))"
proof -
  have m: "magnitude [1, 2] = 258" "magnitude [3] = 3" "magnitude [4, 5, 6] = 263430"
    by (simp_all add: magnitude_def lessThan_Suc)
  have t: "truncated 3 [0, 1, 7, 0, 2, 3]"
    by code_simp
  show ?thesis
    using DHParams_unmarshal_correct [of "[1, 2]" "[3]" "[4, 5, 6]" new_DHParams "[0, 1, 7, 0, 2, 3]"] t
    by (simp add: m new_DHParams_def)
qed

section \<open>Properties of the signature algorithm's serialization\<close>

lemma uint_high_byte: "uint (ucast (drop_bit 8 (v::uint16)) :: byte) = uint v div 256"
proof -
  have "unat v < 65536" using unsigned_less[of v] by simp
  then have "unat v div 256 < 256" by simp
  then have "unat (ucast (drop_bit 8 v) :: byte) = unat v div 256"
    by (simp add: unsigned_ucast_eq drop_bit_eq_div unat_div_distrib take_bit_nat_eq_self)
  then have "int (unat (ucast (drop_bit 8 v) :: byte)) = int (unat v) div 256"
    by (simp only: zdiv_int of_nat_numeral)
  then show ?thesis by simp
qed

lemma uint_low_byte: "uint (ucast (v::uint16) :: byte) = uint v mod 256"
proof -
  have "unat (ucast v :: byte) = unat v mod 256"
    by (simp add: unsigned_ucast_eq take_bit_eq_mod)
  then have "int (unat (ucast v :: byte)) = int (unat v) mod 256"
    by (simp only: zmod_int of_nat_numeral)
  then show ?thesis by simp
qed

lemma high_byte_nonneg: "0 \<le> uint (v::uint16) div 256"
  by (simp add: pos_imp_zdiv_nonneg_iff)

lemma low_byte_nonneg: "0 \<le> uint (v::uint16) mod 256"
  by simp

lemma length_exportHashes: "int (length exportHashes) = 6"
  by (simp add: exportHashes_def)

lemma length_exportAlgorithms: "int (length exportAlgorithms) = 4"
  by (simp add: exportAlgorithms_def)

lemma esa_marshal_unfold:
  "ExportSignatureAlgorithm_MarshalJSON v = Inr (json_Marshal_aux
      \<lparr>Value = v,
       HashName = (if uint v div 256 < 6 then exportHashes ! nat (uint v div 256) else []),
       HashID = uint v div 256,
       AlgName = (if uint v mod 256 < 4 then exportAlgorithms ! nat (uint v mod 256) else []),
       AlgID = uint v mod 256\<rparr>, None)"
proof -
  have hb: "uint (ucast (drop_bit 8 v) :: byte) = uint v div 256"
    by (rule uint_high_byte)
  have lb: "uint (ucast v :: byte) = uint v mod 256"
    by (rule uint_low_byte)
  show ?thesis
    apply (simp only: ExportSignatureAlgorithm_MarshalJSON_def Let_def)
    apply (simp only: hb lb index_string_def length_exportHashes length_exportAlgorithms)
    using high_byte_nonneg [of v] low_byte_nonneg [of v]
    apply (simp add: and_then_def zero_esa_aux_def)
    done
qed

lemma hash_name_nonempty: "0 \<le> i \<Longrightarrow> i < 6 \<Longrightarrow> exportHashes ! nat i \<noteq> []"
proof -
  assume "0 \<le> i" "i < 6"
  then have "nat i \<in> {0, 1, 2, 3, 4, 5}" by auto
  then show ?thesis by (auto simp: exportHashes_def)
qed

lemma alg_name_nonempty: "0 \<le> i \<Longrightarrow> i < 4 \<Longrightarrow> exportAlgorithms ! nat i \<noteq> []"
proof -
  assume "0 \<le> i" "i < 4"
  then have "nat i \<in> {0, 1, 2, 3}" by auto
  then show ?thesis by (auto simp: exportAlgorithms_def)
qed

lemma member_value: "json_member (json_Marshal_aux a) ''value'' = Some (JNumber (uint (Value a)))"
  by (simp add: json_member_def json_Marshal_aux_def)

lemma member_hash_id: "json_member (json_Marshal_aux a) ''hash_id'' = Some (JNumber (HashID a))"
  by (simp add: json_member_def json_Marshal_aux_def)

lemma member_algorithm_id:
  "json_member (json_Marshal_aux a) ''algorithm_id'' = Some (JNumber (AlgID a))"
  by (simp add: json_member_def json_Marshal_aux_def)

lemma member_hash_name:
  "json_member (json_Marshal_aux a) ''hash_name'' =
     (if HashName a = [] then None else Some (JString (HashName a)))"
  by (simp add: json_member_def json_Marshal_aux_def)

lemma member_algorithm_name:
  "json_member (json_Marshal_aux a) ''algorithm_name'' =
     (if AlgName a = [] then None else Some (JString (AlgName a)))"
  by (simp add: json_member_def json_Marshal_aux_def)

text \<open>
  C7. For every 16-bit value, serialization succeeds and splits the value into the hash
  identifier (its high byte) and the algorithm identifier (its low byte). A name is
  present exactly when its identifier is below the length of its table, and is then the
  table's entry; otherwise the name is left out, with no error. The serialized numeric
  value, hash id and algorithm id are those of the original, which the two ids give back.
\<close>

theorem ExportSignatureAlgorithm_MarshalJSON_correct:
  "\<exists>doc. ExportSignatureAlgorithm_MarshalJSON v = Inr (doc, None)
     \<and> json_member doc ''value'' = Some (JNumber (uint v))
     \<and> json_member doc ''hash_id'' = Some (JNumber (uint v div 256))
     \<and> json_member doc ''algorithm_id'' = Some (JNumber (uint v mod 256))
     \<and> json_member doc ''hash_name'' =
         (if uint v div 256 < int (length exportHashes)
          then Some (JString (exportHashes ! nat (uint v div 256))) else None)
     \<and> json_member doc ''algorithm_name'' =
         (if uint v mod 256 < int (length exportAlgorithms)
          then Some (JString (exportAlgorithms ! nat (uint v mod 256))) else None)
     \<and> word_of_int (256 * (uint v div 256) + uint v mod 256) = v"
  unfolding esa_marshal_unfold length_exportHashes length_exportAlgorithms
  using hash_name_nonempty [OF high_byte_nonneg [of v]] alg_name_nonempty [OF low_byte_nonneg [of v]]
  by (simp add: member_value member_hash_id member_algorithm_id member_hash_name
      member_algorithm_name)


theorem ExportSignatureAlgorithm_MarshalJSON_correct_witness:
  "\<exists>doc. ExportSignatureAlgorithm_MarshalJSON 0x0704 = Inr (doc, None)
     \<and> json_member doc ''value'' = Some (JNumber 1796)
     \<and> json_member doc ''hash_id'' = Some (JNumber 7)
     \<and> json_member doc ''algorithm_id'' = Some (JNumber 4)
     \<and> json_member doc ''hash_name'' = None
     \<and> json_member doc ''algorithm_name'' = None"
  using ExportSignatureAlgorithm_MarshalJSON_correct [of "0x0704"]
  by (simp add: exportHashes_def exportAlgorithms_def)

section \<open>Properties of the handshake log builder\<close>

lemma unmarshal_result: "\<exists>p'. DHParams_unmarshal p buf = Inr (\<not> truncated 3 buf, p')"
proof -
  obtain ok p' where r: "DHParams_unmarshal p buf = Inr (ok, p')"
    using unmarshal_total by blast
  from unmarshal_ok_iff [OF r] r show ?thesis by blast
qed


text \<open>
  C2. For every negotiated suite and every key-exchange blob, \<open>setSkx\<close> returns with no
  error and touches at most one of \<open>RSAExportParams\<close>, \<open>DHExportParams\<close> and
  \<open>DHParams\<close>: the one of the family that contains the suite, and none when the suite is
  in no family. The chosen field is set when its decoder succeeds and is left as it was
  when the decoder fails. On a log that had none of the three, at most one is present
  afterwards.
\<close>

theorem setSkx_populates:
  "\<exists>hs'. setSkx tbl rsa_unmarshal hs skx cipher = Inr hs'
     \<and> (case familyOf tbl cipher of
           RSAExportFamily \<Rightarrow>
             (fst (rsa_unmarshal (key skx)) \<longrightarrow>
                RSAExportParams hs' = Some (rsaExportParams_MakeLog (snd (rsa_unmarshal (key skx)))))
             \<and> (\<not> fst (rsa_unmarshal (key skx)) \<longrightarrow> RSAExportParams hs' = RSAExportParams hs)
             \<and> DHExportParams hs' = DHExportParams hs \<and> DHParams hs' = DHParams hs
         | DHEExportFamily \<Rightarrow>
             (\<not> truncated 3 (key skx) \<longrightarrow>
                (\<exists>p. DHParams_unmarshal new_DHParams (key skx) = Inr (True, p)
                      \<and> DHExportParams hs' = Some p))
             \<and> (truncated 3 (key skx) \<longrightarrow> DHExportParams hs' = DHExportParams hs)
             \<and> RSAExportParams hs' = RSAExportParams hs \<and> DHParams hs' = DHParams hs
         | DHEFamily \<Rightarrow>
             (\<not> truncated 3 (key skx) \<longrightarrow>
                (\<exists>p. DHParams_unmarshal new_DHParams (key skx) = Inr (True, p)
                      \<and> DHParams hs' = Some p))
             \<and> (truncated 3 (key skx) \<longrightarrow> DHParams hs' = DHParams hs)
             \<and> RSAExportParams hs' = RSAExportParams hs \<and> DHExportParams hs' = DHExportParams hs
         | NoFamily \<Rightarrow>
             RSAExportParams hs' = RSAExportParams hs \<and> DHExportParams hs' = DHExportParams hs
             \<and> DHParams hs' = DHParams hs)
     \<and> (populated hs = 0 \<longrightarrow> populated hs' \<le> 1)"
proof -
  obtain p' where r: "DHParams_unmarshal new_DHParams (key skx) = Inr (\<not> truncated 3 (key skx), p')"
    using unmarshal_result by blast
  obtain ok q where u: "rsa_unmarshal (key skx) = (ok, q)"
    by (cases "rsa_unmarshal (key skx)")
  show ?thesis
    by (simp add: setSkx_def familyOf_def cipherInList_def r u and_then_def Let_def populated_def)
qed

theorem setSkx_populates_witness:
  "populated new_ServerHandshake = 0
   \<and> \<not> truncated 3 [0, 1, 7, 0, 1, 2, 0, 0]
   \<and> familyOf (\<lambda>t. if t = DHEExportCiphers then [0x0014] else []) 0x0014 = DHEExportFamily
   \<and> (\<exists>hs'. setSkx (\<lambda>t. if t = DHEExportCiphers then [0x0014] else [])
                (\<lambda>k. (False, \<lparr>rawModulus = [], rawExponent = []\<rparr>))
                new_ServerHandshake \<lparr>key = [0, 1, 7, 0, 1, 2, 0, 0]\<rparr> 0x0014 = Inr hs'
          \<and> DHExportParams hs' = Some \<lparr>P = Some 7, G = Some 2, Ys = Some 0\<rparr>
          \<and> RSAExportParams hs' = None \<and> DHParams hs' = None \<and> populated hs' \<le> 1)"
proof -
  have p: "populated new_ServerHandshake = 0"
    by (simp add: populated_def new_ServerHandshake_def)
  have t: "\<not> truncated 3 [0, 1, 7, 0, 1, 2, 0, 0]"
    by code_simp
  have f: "familyOf (\<lambda>t. if t = DHEExportCiphers then [0x0014] else []) 0x0014 = DHEExportFamily"
    by (simp add: familyOf_def)
  have u: "DHParams_unmarshal new_DHParams [0, 1, 7, 0, 1, 2, 0, 0]
             = Inr (True, \<lparr>P = Some 7, G = Some 2, Ys = Some 0\<rparr>)"
    by code_simp
  show ?thesis
    using setSkx_populates [of "\<lambda>t. if t = DHEExportCiphers then [0x0014] else []"
        "\<lambda>k. (False, \<lparr>rawModulus = [], rawExponent = []\<rparr>)" new_ServerHandshake
        "\<lparr>key = [0, 1, 7, 0, 1, 2, 0, 0]\<rparr>" "0x0014"] p t f u
    by (auto simp: new_ServerHandshake_def)
qed

section \<open>Properties of the TLS handshake\<close>

lemma if_upd_CipherSuites:
  "(if b then r\<lparr>CipherSuites := v\<rparr> else r) = r\<lparr>CipherSuites := (if b then v else CipherSuites r)\<rparr>"
  by simp

lemma if_upd_Force:
  "(if b then r\<lparr>CipherSuites := v, ForceSuites := True\<rparr> else r)
     = r\<lparr>CipherSuites := (if b then v else CipherSuites r), ForceSuites := (b \<or> ForceSuites r)\<rparr>"
  by simp

lemma if_upd_ServerName:
  "(if b then r\<lparr>ServerName := v\<rparr> else r) = r\<lparr>ServerName := (if b then v else ServerName r)\<rparr>"
  by simp

lemma if_upd_ExtendedRandom:
  "(if b then r\<lparr>ExtendedRandom := True\<rparr> else r) = r\<lparr>ExtendedRandom := (b \<or> ExtendedRandom r)\<rparr>"
  by simp

lemmas if_upd = if_upd_CipherSuites if_upd_Force if_upd_ServerName if_upd_ExtendedRandom

lemma config_unfold:
  "TLSHandshake_config c =
     \<lparr>InsecureSkipVerify = True, MinVersion = VersionSSL30, MaxVersion = maxTlsVersion c,
      RootCAs = caPool c, HeartbeatEnabled = True, ClientDSAEnabled = True,
      ServerName = (if \<not> noSNI c \<and> domain c \<noteq> [] then domain c else []),
      CipherSuites =
        (if safariNoDHECiphers c then Some SafariNoDHECiphers
         else if safariCiphers c then Some SafariCiphers
         else if firefoxNoDHECiphers c then Some FirefoxNoDHECiphers
         else if firefoxCiphers c then Some FirefoxCiphers
         else if chromeNoDHE c then Some ChromeNoDHECiphers
         else if chromeCiphers c then Some ChromeCiphers
         else if onlyExportsDH c then Some DHEExportCiphers
         else if onlyExports c then Some RSA512ExportCiphers
         else if onlyDHE c then Some DHECiphers
         else None),
      ForceSuites = (safariNoDHECiphers c \<or> safariCiphers c),
      ExtendedRandom = extendedRandom c\<rparr>"
  unfolding TLSHandshake_config_def if_upd
  by (simp add: Let_def new_Config_def del: if_split cong: if_cong)


lemma last_filter_foldl:
  "(if map snd (filter pr xs) = [] then None else Some (last (map snd (filter pr xs))))
     = foldl (\<lambda>acc ft. if pr ft then Some (snd ft) else acc) None xs"
  by (induction xs rule: rev_induct) (auto split: if_splits)

lemma last_set_policies:
  "(if set_policies c = [] then None else Some (last (set_policies c))) =
     (if safariNoDHECiphers c then Some SafariNoDHECiphers
      else if safariCiphers c then Some SafariCiphers
      else if firefoxNoDHECiphers c then Some FirefoxNoDHECiphers
      else if firefoxCiphers c then Some FirefoxCiphers
      else if chromeNoDHE c then Some ChromeNoDHECiphers
      else if chromeCiphers c then Some ChromeCiphers
      else if onlyExportsDH c then Some DHEExportCiphers
      else if onlyExports c then Some RSA512ExportCiphers
      else if onlyDHE c then Some DHECiphers
      else None)"
  unfolding set_policies_def last_filter_foldl policy_flags_def
  by (simp del: if_split cong: if_cong)

lemma TLSHandshake_fresh:
  "\<not> isTls c \<Longrightarrow>
   Conn_TLSHandshake hs c =
     Inr (if ForceSuites (TLSHandshake_config c) \<and> fst hs = Some ErrUnimplementedCipher
          then None else fst hs,
          c\<lparr>tlsConn := Some \<lparr>tls_conn = conn c, tls_config = TLSHandshake_config c,
                               handshakeLog = snd hs\<rparr>,
            isTls := True,
            grabData := (grabData c)\<lparr>TLSHandshake := snd hs\<rparr>\<rparr>,
          [IO_SetDeadline, IO_SetDeadline, IO_Handshake (TLSHandshake_config c)])"
  by (simp add: Conn_TLSHandshake_def Let_def ztls_Client_def GetHandshakeLog_def)

lemma TLSHandshake_repeat:
  "isTls c \<Longrightarrow> tlsConn c = Some t \<Longrightarrow>
   Conn_TLSHandshake hs c =
     Inr (Some (Errorf (''Attempted repeat handshake with remote host '' @ remoteAddr (tls_conn t))),
          c, [])"
  by (simp add: Conn_TLSHandshake_def RemoteAddr_String_def getUnderlyingConn_def and_then_def)

text \<open>
  C3, as the code has it. The flags are tested one after the other and each one that is
  set overwrites the list, so with several flags set the list used by \<open>TLSHandshake\<close> is
  the one of the last set flag in the order DHE-only, export-only, export-DHE-only,
  Chrome, Chrome-no-DHE, Firefox, Firefox-no-DHE, Safari, Safari-no-DHE; with no flag set
  the list is nil. The handshake is run with that configuration.
\<close>

theorem cipher_policy_last_flag_wins:
  "CipherSuites (TLSHandshake_config c) =
     (if set_policies c = [] then None else Some (last (set_policies c)))
   \<and> (\<not> isTls c \<longrightarrow>
        (\<exists>r c'. Conn_TLSHandshake hs c =
           Inr (r, c', [IO_SetDeadline, IO_SetDeadline, IO_Handshake (TLSHandshake_config c)])))"
  unfolding last_set_policies
  by (simp add: config_unfold TLSHandshake_fresh)

theorem cipher_policy_last_flag_wins_witness:
  "\<not> isTls ((zero_Conn ''192.0.2.1:443'')\<lparr>onlyDHE := True, onlyExports := True\<rparr>)
   \<and> CipherSuites (TLSHandshake_config
        ((zero_Conn ''192.0.2.1:443'')\<lparr>onlyDHE := True, onlyExports := True\<rparr>))
      = Some RSA512ExportCiphers
   \<and> (\<exists>r c'. Conn_TLSHandshake (None, None)
          ((zero_Conn ''192.0.2.1:443'')\<lparr>onlyDHE := True, onlyExports := True\<rparr>) =
           Inr (r, c', [IO_SetDeadline, IO_SetDeadline,
                 IO_Handshake (TLSHandshake_config
                   ((zero_Conn ''192.0.2.1:443'')\<lparr>onlyDHE := True, onlyExports := True\<rparr>))]))"
  using cipher_policy_last_flag_wins
    [of "(zero_Conn ''192.0.2.1:443'')\<lparr>onlyDHE := True, onlyExports := True\<rparr>" "(None, None)"]
  by (simp add: set_policies_def policy_flags_def zero_Conn_def)

text \<open>
  C3, as stated (the first set flag wins), fails: with DHE-only and export-only both set
  the first set flag selects the DHE list, and the handshake uses the RSA export list.
\<close>

theorem cipher_policy_first_flag_counterexample:
  "set_policies ((zero_Conn ''192.0.2.1:443'')\<lparr>onlyDHE := True, onlyExports := True\<rparr>)
      = [DHECiphers, RSA512ExportCiphers]
   \<and> CipherSuites (TLSHandshake_config
        ((zero_Conn ''192.0.2.1:443'')\<lparr>onlyDHE := True, onlyExports := True\<rparr>))
      = Some RSA512ExportCiphers
   \<and> Some RSA512ExportCiphers \<noteq> Some DHECiphers"
  by (simp add: config_unfold set_policies_def policy_flags_def zero_Conn_def)

text \<open>
  C6, as the code has it. The force-suites flag of the configuration is set exactly
  when the Safari or the Safari-no-DHE profile is selected; selecting either sets it.
\<close>

theorem force_suites_safari_only:
  "ForceSuites (TLSHandshake_config c) = (safariCiphers c \<or> safariNoDHECiphers c)
   \<and> ForceSuites (TLSHandshake_config (SetSafariCiphers c))
   \<and> ForceSuites (TLSHandshake_config (SetSafariNoDHECiphers c))"
  by (auto simp: config_unfold SetSafariCiphers_def SetSafariNoDHECiphers_def)

theorem force_suites_safari_only_witness:
  "ForceSuites (TLSHandshake_config (SetSafariCiphers (zero_Conn ''192.0.2.1:443'')))
   \<and> \<not> ForceSuites (TLSHandshake_config (SetFirefoxCiphers (zero_Conn ''192.0.2.1:443'')))"
  using force_suites_safari_only [of "zero_Conn ''192.0.2.1:443''"]
    force_suites_safari_only [of "SetFirefoxCiphers (zero_Conn ''192.0.2.1:443'')"]
  by (simp add: zero_Conn_def SetFirefoxCiphers_def)

text \<open>
  C6, as stated (every browser profile sets the flag), fails: with the Chrome profile
  selected the configuration has the Chrome list and the force-suites flag is not set.
\<close>

theorem force_suites_chrome_counterexample:
  "set_policies (SetChromeCiphers (zero_Conn ''192.0.2.1:443'')) = [ChromeCiphers]
   \<and> ChromeCiphers \<in> set browser_tables
   \<and> CipherSuites (TLSHandshake_config (SetChromeCiphers (zero_Conn ''192.0.2.1:443'')))
       = Some ChromeCiphers
   \<and> \<not> ForceSuites (TLSHandshake_config (SetChromeCiphers (zero_Conn ''192.0.2.1:443'')))"
  by (simp add: config_unfold set_policies_def policy_flags_def zero_Conn_def
      SetChromeCiphers_def browser_tables_def)

text \<open>
  C5. When the force-suites flag is set in the configuration and the underlying
  handshake returns \<open>ErrUnimplementedCipher\<close>, \<open>TLSHandshake\<close> returns nil, and the
  handshake log is attached to the result record.
\<close>

theorem forced_suites_unimplemented_is_success:
  "\<not> isTls c \<Longrightarrow> ForceSuites (TLSHandshake_config c) \<Longrightarrow>
   \<exists>c' tr. Conn_TLSHandshake (Some ErrUnimplementedCipher, log) c = Inr (None, c', tr)
      \<and> TLSHandshake (grabData c') = log"
  by (simp add: TLSHandshake_fresh)

theorem forced_suites_unimplemented_is_success_witness:
  "\<not> isTls (SetSafariCiphers (zero_Conn ''192.0.2.1:443''))
   \<and> ForceSuites (TLSHandshake_config (SetSafariCiphers (zero_Conn ''192.0.2.1:443'')))
   \<and> (\<exists>c' tr. Conn_TLSHandshake (Some ErrUnimplementedCipher, Some new_ServerHandshake)
          (SetSafariCiphers (zero_Conn ''192.0.2.1:443'')) = Inr (None, c', tr)
        \<and> TLSHandshake (grabData c') = Some new_ServerHandshake)"
proof -
  have a: "\<not> isTls (SetSafariCiphers (zero_Conn ''192.0.2.1:443''))"
    by (simp add: SetSafariCiphers_def zero_Conn_def)
  have b: "ForceSuites (TLSHandshake_config (SetSafariCiphers (zero_Conn ''192.0.2.1:443'')))"
    by (simp add: config_unfold SetSafariCiphers_def)
  from forced_suites_unimplemented_is_success [OF a b, of "Some new_ServerHandshake"] a b
  show ?thesis by blast
qed

text \<open>
  C4. On a connection with an established TLS handshake (the flag is set and the TLS
  connection exists), \<open>TLSHandshake\<close> returns the repeat-handshake error, does nothing to
  the outside and leaves the connection, with the handshake log in \<open>grabData\<close>, as it
  was.
\<close>

theorem repeat_handshake_is_error:
  "isTls c \<Longrightarrow> tlsConn c = Some t \<Longrightarrow>
   \<exists>c'. Conn_TLSHandshake hs c =
       Inr (Some (Errorf (''Attempted repeat handshake with remote host ''
                           @ remoteAddr (tls_conn t))), c', [])
     \<and> c' = c \<and> TLSHandshake (grabData c') = TLSHandshake (grabData c)"
  by (simp add: TLSHandshake_repeat)

theorem repeat_handshake_is_error_witness:
  "\<exists>c1 tr. Conn_TLSHandshake (None, Some new_ServerHandshake) (zero_Conn ''192.0.2.1:443'')
              = Inr (None, c1, tr)
     \<and> isTls c1
     \<and> Conn_TLSHandshake (None, None) c1 =
          Inr (Some (Errorf ''Attempted repeat handshake with remote host 192.0.2.1:443''), c1, [])
     \<and> TLSHandshake (grabData c1) = Some new_ServerHandshake"
proof -
  define c0 where "c0 = zero_Conn ''192.0.2.1:443''"
  define c1 where "c1 = c0\<lparr>tlsConn := Some \<lparr>tls_conn = conn c0, tls_config = TLSHandshake_config c0,
                               handshakeLog = Some new_ServerHandshake\<rparr>,
            isTls := True,
            grabData := (grabData c0)\<lparr>TLSHandshake := Some new_ServerHandshake\<rparr>\<rparr>"
  have n: "\<not> isTls c0" by (simp add: c0_def zero_Conn_def)
  have first: "Conn_TLSHandshake (None, Some new_ServerHandshake) c0
      = Inr (None, c1, [IO_SetDeadline, IO_SetDeadline, IO_Handshake (TLSHandshake_config c0)])"
    by (simp add: TLSHandshake_fresh [OF n] c1_def)
  have t: "isTls c1" by (simp add: c1_def)
  have tc: "tlsConn c1 = Some \<lparr>tls_conn = conn c0, tls_config = TLSHandshake_config c0,
                               handshakeLog = Some new_ServerHandshake\<rparr>"
    by (simp add: c1_def)
  have addr: "remoteAddr (conn c0) = ''192.0.2.1:443''" by (simp add: c0_def zero_Conn_def)
  have g: "TLSHandshake (grabData c1) = Some new_ServerHandshake" by (simp add: c1_def)
  from repeat_handshake_is_error [OF t tc, of "(None, None)"] addr
  have second: "Conn_TLSHandshake (None, None) c1 =
          Inr (Some (Errorf ''Attempted repeat handshake with remote host 192.0.2.1:443''), c1, [])"
    by simp
  from first t second g show ?thesis unfolding c0_def by blast
qed

text \<open>
  C9. On a connection with no TLS handshake performed, \<open>CheckHeartbleed\<close> returns a zero
  count and the error that a handshake must come first, does nothing to the outside (no
  write), and leaves the connection as it was.
\<close>

theorem heartbleed_before_handshake:
  "\<not> isTls c \<Longrightarrow>
   Conn_CheckHeartbleed hb b c =
     Inr ((0, Some (Errorf (''Must perform TLS handshake before sending Heartbleed probe to ''
                             @ remoteAddr (conn c)))), c, [])"
  by (simp add: Conn_CheckHeartbleed_def RemoteAddr_String_def getUnderlyingConn_def and_then_def)

theorem heartbleed_before_handshake_witness:
  "\<not> isTls (zero_Conn ''192.0.2.1:443'')
   \<and> Conn_CheckHeartbleed ((7, None), None) [1, 2, 3] (zero_Conn ''192.0.2.1:443'') =
       Inr ((0, Some (Errorf
         ''Must perform TLS handshake before sending Heartbleed probe to 192.0.2.1:443'')),
         zero_Conn ''192.0.2.1:443'', [])"
  using heartbleed_before_handshake [of "zero_Conn ''192.0.2.1:443''" "((7, None), None)" "[1, 2, 3]"]
  by (simp add: zero_Conn_def)

section \<open>Properties of the SMTP upgrade\<close>

lemma read_back:
  "length d \<le> n \<Longrightarrow> slice_to (take n (d @ replicate n z)) (length d) = Inr d"
  by (simp add: slice_to_def)

lemma slice_to_append: "slice_to (d @ xs) (length d) = Inr d"
  by (simp add: slice_to_def)

lemma sendStartTLSCommand_plain:
  "\<not> isTls c \<Longrightarrow> sendStartTLSCommand cmd w c = Inr (snd w, c, [IO_Write cmd])"
  by (simp add: sendStartTLSCommand_def)

lemma sendStartTLSCommand_tls:
  "isTls c \<Longrightarrow> tlsConn c = Some t \<Longrightarrow>
   sendStartTLSCommand cmd w c =
     Inr (Some (Errorf (''Attempt STARTTLS after TLS handshake with remote host ''
                         @ remoteAddr (tls_conn t))), c, [])"
  by (simp add: sendStartTLSCommand_def RemoteAddr_String_def getUnderlyingConn_def and_then_def)

lemma smtp_code_check:
  "5 \<le> length d \<Longrightarrow>
   and_then (slice_to d 3) (\<lambda>code.
           (case Atoi code of
              Inl e \<Rightarrow> Inr (Some (Errorf ''Bad return code for STARTTLS''))
            | Inr ret \<Rightarrow>
                if ret < 200 \<or> ret \<ge> 300 then Inr (Some (Errorf ''Bad return code for STARTTLS''))
                else Inr None))
   = Inr (if (case Atoi (take 3 d) of Inl e \<Rightarrow> False | Inr k \<Rightarrow> 200 \<le> k \<and> k \<le> 299)
          then None else Some (Errorf ''Bad return code for STARTTLS''))"
  by (auto simp: slice_to_def and_then_def split: sum.splits)

lemma read_then_slice:
  assumes "\<not> isTls c" "length (fst rd) \<le> n"
  shows "and_then (read_into n rd c) (\<lambda>(buf, k, err). and_then (slice_to buf k) (\<lambda>s. f s k err))
           = f (fst rd) (length (fst rd)) (snd rd)"
proof -
  have "slice_to (take n (fst rd @ replicate n (CHR 0x00))) (length (fst rd)) = Inr (fst rd)"
    by (rule read_back) (rule assms(2))
  then show ?thesis
    using assms(1) by (simp add: read_into_def getUnderlyingConn_def and_then_def)
qed

lemma SMTP_unfold:
  assumes "\<not> isTls c" "snd w = None" "length (fst rd) \<le> 256"
  shows "Conn_SMTPStartTLSHandshake w rd hs c =
    (if smtp_accepts rd
     then and_then (Conn_TLSHandshake hs (c\<lparr>grabData := (grabData c)\<lparr>StartTLS := fst rd\<rparr>\<rparr>))
            (\<lambda>(r, c', tr2). Inr (r, c', [IO_Write SMTP_COMMAND] @ [IO_Read] @ tr2))
     else Inr (Some (if length (fst rd) < 5
                     then Errorf ''Server did not indicate support for STARTTLS''
                     else if snd rd \<noteq> None then the (snd rd)
                     else Errorf ''Bad return code for STARTTLS''),
               c\<lparr>grabData := (grabData c)\<lparr>StartTLS := fst rd\<rparr>\<rparr>,
               [IO_Write SMTP_COMMAND, IO_Read]))"
proof -
  have s: "sendStartTLSCommand SMTP_COMMAND w c = Inr (None, c, [IO_Write SMTP_COMMAND])"
    using assms by (simp add: sendStartTLSCommand_plain)
  have step: "Conn_SMTPStartTLSHandshake w rd hs c =
    (let c = c\<lparr>grabData := (grabData c)\<lparr>StartTLS := fst rd\<rparr>\<rparr>;
        err = (if length (fst rd) < 5
               then Some (Errorf ''Server did not indicate support for STARTTLS'') else snd rd)
    in
    and_then
      (if err = None then
         and_then (slice_to (StartTLS (grabData c)) 3) (\<lambda>code.
           (case Atoi code of
              Inl e \<Rightarrow> Inr (Some (Errorf ''Bad return code for STARTTLS''))
            | Inr ret \<Rightarrow>
                if ret < 200 \<or> ret \<ge> 300 then Inr (Some (Errorf ''Bad return code for STARTTLS''))
                else Inr None))
       else Inr err) (\<lambda>err.
    if err \<noteq> None then Inr (err, c, [IO_Write SMTP_COMMAND] @ [IO_Read]) else
    and_then (Conn_TLSHandshake hs c)
      (\<lambda>(r, c, tr2). Inr (r, c, [IO_Write SMTP_COMMAND] @ [IO_Read] @ tr2))))"
    unfolding Conn_SMTPStartTLSHandshake_def s readSmtpResponse_def
    by (simp only: and_then_def [of "Inr x" for x] sum.case prod.case option.simps if_False
        not_not refl if_True simp_thms read_then_slice [OF assms(1) assms(3)])
  show ?thesis
  proof (cases "length (fst rd) < 5")
    case True
    then show ?thesis
      unfolding step by (simp add: and_then_def smtp_accepts_def)
  next
    case False
    then have five: "5 \<le> length (fst rd)" by simp
    show ?thesis
    proof (cases "snd rd")
      case None
      then show ?thesis
        unfolding step using five False
        by (simp add: smtp_code_check smtp_accepts_def and_then_def [of "Inr x" for x])
    next
      case (Some e)
      then show ?thesis
        unfolding step using five False
        by (simp add: and_then_def smtp_accepts_def)
    qed
  qed
qed


lemma SMTP_write_error:
  "\<not> isTls c \<Longrightarrow> snd w \<noteq> None \<Longrightarrow>
   Conn_SMTPStartTLSHandshake w rd hs c = Inr (snd w, c, [IO_Write SMTP_COMMAND])"
  by (auto simp: Conn_SMTPStartTLSHandshake_def sendStartTLSCommand_plain and_then_def)

text \<open>
  C8. On a plaintext connection, \<open>SMTPStartTLSHandshake\<close> returns, and it runs the TLS
  handshake exactly when the command was sent and the reply is accepted: the read
  succeeded, the reply has at least five bytes, and its first three characters parse as
  an integer from 200 to 299. Then its result is the handshake's. For any other reply, a
  short read or an I/O error it returns an error with no handshake attempted, and the
  connection is still plaintext. (The reader stores at most the 256 bytes of its buffer.)
\<close>

theorem smtp_starttls_proceeds_iff_accepted:
  assumes "\<not> isTls c" and "length (fst rd) \<le> 256"
  shows "\<exists>r c' tr. Conn_SMTPStartTLSHandshake w rd hs c = Inr (r, c', tr)
     \<and> ((\<exists>cfg. IO_Handshake cfg \<in> set tr) = (snd w = None \<and> smtp_accepts rd))
     \<and> (snd w = None \<and> smtp_accepts rd \<longrightarrow>
           isTls c'
           \<and> Conn_TLSHandshake hs (c\<lparr>grabData := (grabData c)\<lparr>StartTLS := fst rd\<rparr>\<rparr>)
               = Inr (r, c', drop 2 tr))
     \<and> (\<not> (snd w = None \<and> smtp_accepts rd) \<longrightarrow>
           r \<noteq> None \<and> \<not> isTls c' \<and> tlsConn c' = tlsConn c)"
proof (cases "snd w = None")
  case False
  with assms(1) show ?thesis
    by (auto simp: SMTP_write_error)
next
  case True
  note u = SMTP_unfold [OF assms(1) True assms(2), of hs]
  show ?thesis
  proof (cases "smtp_accepts rd")
    case False
    then show ?thesis
      using assms(1) True unfolding u by (auto simp: smtp_accepts_def)
  next
    case acc: True
    have n: "\<not> isTls (c\<lparr>grabData := (grabData c)\<lparr>StartTLS := fst rd\<rparr>\<rparr>)"
      using assms(1) by simp
    show ?thesis
      using acc True unfolding u TLSHandshake_fresh [OF n]
      by (simp add: and_then_def)
  qed
qed

theorem smtp_starttls_proceeds_iff_accepted_witness:
  "\<not> isTls (zero_Conn ''192.0.2.1:25'')
   \<and> smtp_accepts (''220 Go ahead'' @ [CHR 0x0D, CHR 0x0A], None)
   \<and> \<not> smtp_accepts (''454 TLS unavailable'' @ [CHR 0x0D, CHR 0x0A], None)
   \<and> (\<exists>r c' tr. Conn_SMTPStartTLSHandshake (10, None)
           (''220 Go ahead'' @ [CHR 0x0D, CHR 0x0A], None) (None, None)
           (zero_Conn ''192.0.2.1:25'') = Inr (r, c', tr)
         \<and> (\<exists>cfg. IO_Handshake cfg \<in> set tr) \<and> isTls c')
   \<and> (\<exists>r c' tr. Conn_SMTPStartTLSHandshake (10, None)
           (''454 TLS unavailable'' @ [CHR 0x0D, CHR 0x0A], None) (None, None)
           (zero_Conn ''192.0.2.1:25'') = Inr (r, c', tr)
         \<and> \<not> (\<exists>cfg. IO_Handshake cfg \<in> set tr) \<and> r \<noteq> None \<and> \<not> isTls c')"
proof -
  have n: "\<not> isTls (zero_Conn ''192.0.2.1:25'')"
    by (simp add: zero_Conn_def)
  have a220: "smtp_accepts (''220 Go ahead'' @ [CHR 0x0D, CHR 0x0A], None)"
    by (simp add: smtp_accepts_def Atoi_def digit_val_def)
  have a454: "\<not> smtp_accepts (''454 TLS unavailable'' @ [CHR 0x0D, CHR 0x0A], None)"
    by (simp add: smtp_accepts_def Atoi_def digit_val_def)
  have l220: "length (fst (''220 Go ahead'' @ [CHR 0x0D, CHR 0x0A], None :: error option)) \<le> 256"
    by simp
  have l454: "length (fst (''454 TLS unavailable'' @ [CHR 0x0D, CHR 0x0A], None :: error option)) \<le> 256"
    by simp
  from smtp_starttls_proceeds_iff_accepted [OF n l220, of "(10, None)" "(None, None)"] a220
  have p: "\<exists>r c' tr. Conn_SMTPStartTLSHandshake (10, None)
           (''220 Go ahead'' @ [CHR 0x0D, CHR 0x0A], None) (None, None)
           (zero_Conn ''192.0.2.1:25'') = Inr (r, c', tr)
         \<and> (\<exists>cfg. IO_Handshake cfg \<in> set tr) \<and> isTls c'"
    by auto
  from smtp_starttls_proceeds_iff_accepted [OF n l454, of "(10, None)" "(None, None)"] a454
  have q: "\<exists>r c' tr. Conn_SMTPStartTLSHandshake (10, None)
           (''454 TLS unavailable'' @ [CHR 0x0D, CHR 0x0A], None) (None, None)
           (zero_Conn ''192.0.2.1:25'') = Inr (r, c', tr)
         \<and> \<not> (\<exists>cfg. IO_Handshake cfg \<in> set tr) \<and> r \<noteq> None \<and> \<not> isTls c'"
    by auto
  from n a220 a454 p q show ?thesis by blast
qed

section \<open>Properties of the TLS mark\<close>

lemmas method_defs =
  SetDHEOnly_def SetExportsOnly_def SetExportsDHOnly_def SetChromeCiphers_def
  SetChromeNoDHECiphers_def SetFirefoxCiphers_def SetFirefoxNoDHECiphers_def
  SetSafariCiphers_def SetSafariNoDHECiphers_def SetExtendedRandom_def SetCAPool_def
  SetDomain_def SetNoSNI_def Conn_SetDeadline_def Conn_SetReadDeadline_def
  Conn_SetWriteDeadline_def Conn_Write_def Conn_BasicBanner_def Conn_Read_def Conn_Close_def
  Conn_HTTP_def Conn_TLSHandshake_def sendStartTLSCommand_def Conn_SMTPStartTLSHandshake_def
  Conn_POP3StartTLSHandshake_def Conn_IMAPStartTLSHandshake_def Conn_SMTPBanner_def
  Conn_EHLO_def Conn_SMTPHelp_def Conn_POP3Banner_def Conn_IMAPBanner_def
  Conn_CheckHeartbleed_def Conn_SendModbusEcho_def Conn_GetFTPSCertificates_def
  Conn_SSHHandshake_def readSmtpResponse_def readPop3Response_def readImapStatusResponse_def
  read_into_def RemoteAddr_String_def getUnderlyingConn_def

lemma exec_keeps_tls:
  "isTls c \<Longrightarrow> tlsConn c = Some t \<Longrightarrow> exec x c = Inr c' \<Longrightarrow>
     isTls c' \<and> tlsConn c' = Some t"
  by (cases x)
     (auto simp: after_def and_then_def method_defs Let_def
           split: sum.splits prod.splits if_splits option.splits)

lemma exec_keeps_isTls:
  "isTls c \<Longrightarrow> exec x c = Inr c' \<Longrightarrow> isTls c'"
  by (cases x)
     (auto simp: after_def and_then_def method_defs Let_def
           split: sum.splits prod.splits if_splits option.splits)


lemma run_ops_keeps_tls:
  "isTls c \<Longrightarrow> tlsConn c = Some t \<Longrightarrow> run_ops xs c = Inr c' \<Longrightarrow>
     isTls c' \<and> tlsConn c' = Some t"
proof (induction xs arbitrary: c)
  case Nil
  then show ?case by simp
next
  case (Cons x xs)
  from Cons.prems(3) obtain c1 where e: "exec x c = Inr c1" and r: "run_ops xs c1 = Inr c'"
    by (auto simp: and_then_def split: sum.splits)
  from exec_keeps_tls [OF Cons.prems(1) Cons.prems(2) e]
  have "isTls c1" "tlsConn c1 = Some t" by simp_all
  then show ?case using Cons.IH r by blast
qed

text \<open>
  C10. \<open>TLSHandshake\<close> on a plaintext connection returns with \<open>isTls\<close> set, whatever
  the underlying handshake answers, a failure included. No operation clears the mark.
  So after any further operations every \<open>TLSHandshake\<close> returns the repeat-handshake
  error and every STARTTLS command send returns the after-TLS error, with nothing done
  to the outside: a failed handshake cannot be retried on the same connection.
\<close>

theorem failed_handshake_not_retryable:
  assumes "\<not> isTls c"
  shows "\<exists>r c1 tr. Conn_TLSHandshake hs c = Inr (r, c1, tr) \<and> isTls c1
     \<and> (\<forall>xs c2. run_ops xs c1 = Inr c2 \<longrightarrow>
           isTls c2
           \<and> Conn_TLSHandshake hs2 c2 =
               Inr (Some (Errorf (''Attempted repeat handshake with remote host ''
                                   @ remoteAddr (conn c))), c2, [])
           \<and> sendStartTLSCommand cmd w c2 =
               Inr (Some (Errorf (''Attempt STARTTLS after TLS handshake with remote host ''
                                   @ remoteAddr (conn c))), c2, []))
     \<and> (\<forall>x a a'. isTls a \<and> exec x a = Inr a' \<longrightarrow> isTls a')"
proof -
  define t where "t = \<lparr>tls_conn = conn c, tls_config = TLSHandshake_config c, handshakeLog = snd hs\<rparr>"
  define c1 where "c1 = c\<lparr>tlsConn := Some t, isTls := True,
            grabData := (grabData c)\<lparr>TLSHandshake := snd hs\<rparr>\<rparr>"
  have first: "Conn_TLSHandshake hs c =
      Inr (if ForceSuites (TLSHandshake_config c) \<and> fst hs = Some ErrUnimplementedCipher
           then None else fst hs, c1,
           [IO_SetDeadline, IO_SetDeadline, IO_Handshake (TLSHandshake_config c)])"
    unfolding c1_def t_def by (rule TLSHandshake_fresh [OF assms])
  have i1: "isTls c1" and t1: "tlsConn c1 = Some t" by (simp_all add: c1_def)
  have addr: "remoteAddr (tls_conn t) = remoteAddr (conn c)" by (simp add: t_def)
  have later: "isTls c2
           \<and> Conn_TLSHandshake hs2 c2 =
               Inr (Some (Errorf (''Attempted repeat handshake with remote host ''
                                   @ remoteAddr (conn c))), c2, [])
           \<and> sendStartTLSCommand cmd w c2 =
               Inr (Some (Errorf (''Attempt STARTTLS after TLS handshake with remote host ''
                                   @ remoteAddr (conn c))), c2, [])"
    if "run_ops xs c1 = Inr c2" for xs c2
  proof -
    from run_ops_keeps_tls [OF i1 t1 that] have i2: "isTls c2" and t2: "tlsConn c2 = Some t"
      by simp_all
    show ?thesis
      using i2 TLSHandshake_repeat [OF i2 t2, of hs2] sendStartTLSCommand_tls [OF i2 t2, of cmd w]
      by (simp add: addr)
  qed
  have keep: "\<forall>x a a'. isTls a \<and> exec x a = Inr a' \<longrightarrow> isTls a'"
    using exec_keeps_isTls by blast
  from first i1 later keep show ?thesis by blast
qed


theorem failed_handshake_not_retryable_witness:
  "\<not> isTls (zero_Conn ''192.0.2.1:25'')
   \<and> (\<exists>c1 tr c2.
         Conn_TLSHandshake (Some (External ''EOF''), None) (zero_Conn ''192.0.2.1:25'')
           = Inr (Some (External ''EOF''), c1, tr)
       \<and> isTls c1
       \<and> run_ops [OpSetDomain ''example.com'', OpTLSHandshake (None, None)] c1 = Inr c2
       \<and> isTls c2
       \<and> Conn_TLSHandshake (None, None) c2 =
            Inr (Some (Errorf ''Attempted repeat handshake with remote host 192.0.2.1:25''), c2, [])
       \<and> sendStartTLSCommand SMTP_COMMAND (10, None) c2 =
            Inr (Some (Errorf
              ''Attempt STARTTLS after TLS handshake with remote host 192.0.2.1:25''), c2, []))"
proof -
  define c0 where "c0 = zero_Conn ''192.0.2.1:25''"
  define t where "t = \<lparr>tls_conn = conn c0, tls_config = TLSHandshake_config c0,
                        handshakeLog = (None :: ServerHandshake option)\<rparr>"
  define c1 where "c1 = c0\<lparr>tlsConn := Some t, isTls := True,
            grabData := (grabData c0)\<lparr>TLSHandshake := None\<rparr>\<rparr>"
  define c2 where "c2 = c1\<lparr>domain := ''example.com''\<rparr>"
  have n: "\<not> isTls c0" by (simp add: c0_def zero_Conn_def)
  have addr: "remoteAddr (conn c0) = ''192.0.2.1:25''" by (simp add: c0_def zero_Conn_def)
  have first: "Conn_TLSHandshake (Some (External ''EOF''), None) c0 =
      Inr (Some (External ''EOF''), c1,
           [IO_SetDeadline, IO_SetDeadline, IO_Handshake (TLSHandshake_config c0)])"
    by (simp add: TLSHandshake_fresh [OF n] c1_def t_def)
  have i2: "isTls c2" and t2: "tlsConn c2 = Some t" by (simp_all add: c2_def c1_def)
  have run: "run_ops [OpSetDomain ''example.com'', OpTLSHandshake (None, None)] c1 = Inr c2"
    using TLSHandshake_repeat [OF i2 t2, of "(None, None)"]
    by (simp add: and_then_def after_def SetDomain_def c2_def)
  from failed_handshake_not_retryable [OF n, of "(Some (External ''EOF''), None)" "(None, None)"
      SMTP_COMMAND "(10, None)"]
  obtain r' c1' tr' where
    f': "Conn_TLSHandshake (Some (External ''EOF''), None) c0 = Inr (r', c1', tr')"
    and i1': "isTls c1'"
    and all: "\<forall>xs c2. run_ops xs c1' = Inr c2 \<longrightarrow>
           isTls c2
           \<and> Conn_TLSHandshake (None, None) c2 =
               Inr (Some (Errorf (''Attempted repeat handshake with remote host ''
                                   @ remoteAddr (conn c0))), c2, [])
           \<and> sendStartTLSCommand SMTP_COMMAND (10, None) c2 =
               Inr (Some (Errorf (''Attempt STARTTLS after TLS handshake with remote host ''
                                   @ remoteAddr (conn c0))), c2, [])"
    by blast
  from f' first have eq: "c1' = c1" by simp
  from all run have "isTls c2
           \<and> Conn_TLSHandshake (None, None) c2 =
               Inr (Some (Errorf (''Attempted repeat handshake with remote host ''
                                   @ remoteAddr (conn c0))), c2, [])
           \<and> sendStartTLSCommand SMTP_COMMAND (10, None) c2 =
               Inr (Some (Errorf (''Attempt STARTTLS after TLS handshake with remote host ''
                                   @ remoteAddr (conn c0))), c2, [])"
    unfolding eq by blast
  then have fin: "isTls c2
       \<and> Conn_TLSHandshake (None, None) c2 =
            Inr (Some (Errorf ''Attempted repeat handshake with remote host 192.0.2.1:25''), c2, [])
       \<and> sendStartTLSCommand SMTP_COMMAND (10, None) c2 =
            Inr (Some (Errorf
              ''Attempt STARTTLS after TLS handshake with remote host 192.0.2.1:25''), c2, [])"
    by (simp add: addr)
  from i1' eq have i1: "isTls c1" by simp
  from n first i1 run fin show ?thesis unfolding c0_def by blast
qed

end
